theory Spec2Isabelle
  imports Main "HOL-Library.AList" "HOL-Library.Sublist" "HOL-Library.Char_ord" "HOL-Library.List_Lexorder"
begin

section \<open>Strings\<close>

text \<open>
  A Python \<open>str\<close> is modelled as a \<open>string\<close>, one \<open>char\<close> per code point (code points
  up to 255). \<open>len\<close> is \<open>length\<close>, \<open>c in s\<close> is \<open>c \<in> set s\<close>, and an empty string is the
  only falsy one. Strings are compared as Python compares them, code point by code point
  (the lexicographic order on lists over the order of \<open>char\<close>).
\<close>

definition isspace :: "char \<Rightarrow> bool" where
  \<comment> \<open>\<open>str.isspace\<close> on one character: TAB, LF, VT, FF, CR, FS, GS, RS, US, SPACE, NEL, NBSP.\<close>
  "isspace c = ((of_char c :: nat) \<in> {9, 10, 11, 12, 13, 28, 29, 30, 31, 32, 133, 160})"

definition strip :: "string \<Rightarrow> string" where
  \<comment> \<open>\<open>str.strip()\<close>: leading and trailing whitespace removed.\<close>
  "strip s = rev (dropWhile isspace (rev (dropWhile isspace s)))"

definition lower_char :: "char \<Rightarrow> char" where
  \<comment> \<open>\<open>str.lower()\<close> on one character: A-Z, and the upper-case letters of Latin-1.\<close>
  "lower_char c =
     (let n = (of_char c :: nat) in
      if (65 \<le> n \<and> n \<le> 90) \<or> (192 \<le> n \<and> n \<le> 222 \<and> n \<noteq> 215)
      then char_of (n + 32) else c)"

definition lower :: "string \<Rightarrow> string" where
  "lower s = map lower_char s"

definition or_empty :: "string option \<Rightarrow> string" where
  \<comment> \<open>\<open>x or ""\<close> for an optional string.\<close>
  "or_empty x = (case x of None \<Rightarrow> [] | Some s \<Rightarrow> s)"

definition or_else :: "string option \<Rightarrow> string \<Rightarrow> string" where
  \<comment> \<open>\<open>x or d\<close>: \<open>None\<close> and the empty string are falsy.\<close>
  "or_else x d = (case x of None \<Rightarrow> d | Some s \<Rightarrow> (if s = [] then d else s))"

section \<open>The employee model (app/models/employee.py)\<close>

record employee =
  employee_id :: string
  first_name :: string
  last_name :: string
  email :: string
  position :: string
  department :: string
  phone :: string
  hire_date :: string
  profile_picture_url :: string
  created_at :: string
  updated_at :: string

text \<open>
  \<open>Employee.__init__\<close>. The first argument is the reading of \<open>datetime.utcnow().isoformat()\<close>
  the constructor takes; the optional arguments default to \<open>None\<close>.
\<close>

definition Employee ::
  "string \<Rightarrow> string \<Rightarrow> string \<Rightarrow> string \<Rightarrow> string \<Rightarrow> string \<Rightarrow> string \<Rightarrow>
   string option \<Rightarrow> string option \<Rightarrow> string option \<Rightarrow> string option \<Rightarrow> string option \<Rightarrow> employee" where
  "Employee current_time eid fname lname em pos dep ph hdate pic created updated =
     \<lparr> employee_id = eid, first_name = fname, last_name = lname, email = em, position = pos,
       department = dep, phone = or_empty ph, hire_date = or_empty hdate,
       profile_picture_url = or_empty pic,
       created_at = or_else created current_time, updated_at = or_else updated current_time \<rparr>"

type_synonym item = "string \<rightharpoonup> string"

definition to_dict :: "employee \<Rightarrow> item" where
  "to_dict self =
     [''employee_id'' \<mapsto> employee_id self, ''first_name'' \<mapsto> first_name self,
      ''last_name'' \<mapsto> last_name self, ''email'' \<mapsto> email self,
      ''position'' \<mapsto> position self, ''department'' \<mapsto> department self,
      ''phone'' \<mapsto> phone self, ''hire_date'' \<mapsto> hire_date self,
      ''profile_picture_url'' \<mapsto> profile_picture_url self,
      ''created_at'' \<mapsto> created_at self, ''updated_at'' \<mapsto> updated_at self]"

definition dict_get :: "item \<Rightarrow> string \<Rightarrow> string \<Rightarrow> string" where
  \<comment> \<open>\<open>data.get(key, default)\<close>\<close>
  "dict_get data k d = (case data k of None \<Rightarrow> d | Some v \<Rightarrow> v)"

definition from_dict :: "string \<Rightarrow> item \<Rightarrow> employee" where
  "from_dict current_time data =
     Employee current_time
       (dict_get data ''employee_id'' []) (dict_get data ''first_name'' [])
       (dict_get data ''last_name'' []) (dict_get data ''email'' [])
       (dict_get data ''position'' []) (dict_get data ''department'' [])
       (Some (dict_get data ''phone'' [])) (Some (dict_get data ''hire_date'' []))
       (Some (dict_get data ''profile_picture_url'' []))
       (Some (dict_get data ''created_at'' [])) (Some (dict_get data ''updated_at'' []))"

definition update_timestamp :: "string \<Rightarrow> employee \<Rightarrow> employee" where
  \<comment> \<open>The first argument is the reading of the clock.\<close>
  "update_timestamp current_time self = self\<lparr>updated_at := current_time\<rparr>"

text \<open>
  \<open>Employee.validate\<close>: the error list is built by appending, check after check, in the
  order of the source; the format check of the email is the \<open>elif\<close> of the required check.
\<close>

definition validate :: "employee \<Rightarrow> bool \<times> string list" where
  "validate self =
    (let errors = [];
         errors = (if employee_id self = [] then errors @ [''Employee ID is required'']
                   else errors);
         errors = (if first_name self = [] \<or> strip (first_name self) = []
                   then errors @ [''First name is required''] else errors);
         errors = (if last_name self = [] \<or> strip (last_name self) = []
                   then errors @ [''Last name is required''] else errors);
         errors = (if email self = [] \<or> strip (email self) = []
                   then errors @ [''Email is required'']
                   else if CHR ''@'' \<notin> set (email self) \<or> CHR ''.'' \<notin> set (email self)
                   then errors @ [''Invalid email format''] else errors);
         errors = (if position self = [] \<or> strip (position self) = []
                   then errors @ [''Position is required''] else errors);
         errors = (if department self = [] \<or> strip (department self) = []
                   then errors @ [''Department is required''] else errors);
         errors = (if length (first_name self) > 50
                   then errors @ [''First name must be 50 characters or less''] else errors);
         errors = (if length (last_name self) > 50
                   then errors @ [''Last name must be 50 characters or less''] else errors);
         errors = (if length (email self) > 100
                   then errors @ [''Email must be 100 characters or less''] else errors);
         errors = (if length (position self) > 100
                   then errors @ [''Position must be 100 characters or less''] else errors);
         errors = (if length (department self) > 50
                   then errors @ [''Department must be 50 characters or less''] else errors);
         errors = (if phone self \<noteq> [] \<and> length (phone self) > 20
                   then errors @ [''Phone number must be 20 characters or less''] else errors)
     in (length errors = 0, errors))"

subsection \<open>The rules of the validator, as the specification words them\<close>

datatype rule =
  IdRequired | FirstNameRequired | LastNameRequired | EmailRequired | EmailFormat
  | PositionRequired | DepartmentRequired | FirstNameLength | LastNameLength | EmailLength
  | PositionLength | DepartmentLength | PhoneLength

definition all_rules :: "rule list" where
  "all_rules =
     [IdRequired, FirstNameRequired, LastNameRequired, EmailRequired, EmailFormat,
      PositionRequired, DepartmentRequired, FirstNameLength, LastNameLength, EmailLength,
      PositionLength, DepartmentLength, PhoneLength]"

text \<open>
  When a record violates a rule, rule by rule as section 4.1 of the specification lists
  them: an identifier, a position or a department that is empty; a name or an email that
  is empty after trimming; an email without \<open>@\<close> or without a dot; a field longer than its
  bound; a phone that is present and longer than 20 characters. Each rule looks at its own
  field only.
\<close>

fun violates :: "employee \<Rightarrow> rule \<Rightarrow> bool" where
  "violates e IdRequired = (employee_id e = [])"
| "violates e FirstNameRequired = (strip (first_name e) = [])"
| "violates e LastNameRequired = (strip (last_name e) = [])"
| "violates e EmailRequired = (strip (email e) = [])"
| "violates e EmailFormat = (\<not> (CHR ''@'' \<in> set (email e) \<and> CHR ''.'' \<in> set (email e)))"
| "violates e PositionRequired = (position e = [])"
| "violates e DepartmentRequired = (department e = [])"
| "violates e FirstNameLength = (length (first_name e) > 50)"
| "violates e LastNameLength = (length (last_name e) > 50)"
| "violates e EmailLength = (length (email e) > 100)"
| "violates e PositionLength = (length (position e) > 100)"
| "violates e DepartmentLength = (length (department e) > 50)"
| "violates e PhoneLength = (phone e \<noteq> [] \<and> length (phone e) > 20)"

fun message :: "rule \<Rightarrow> string" where
  "message IdRequired = ''Employee ID is required''"
| "message FirstNameRequired = ''First name is required''"
| "message LastNameRequired = ''Last name is required''"
| "message EmailRequired = ''Email is required''"
| "message EmailFormat = ''Invalid email format''"
| "message PositionRequired = ''Position is required''"
| "message DepartmentRequired = ''Department is required''"
| "message FirstNameLength = ''First name must be 50 characters or less''"
| "message LastNameLength = ''Last name must be 50 characters or less''"
| "message EmailLength = ''Email must be 100 characters or less''"
| "message PositionLength = ''Position must be 100 characters or less''"
| "message DepartmentLength = ''Department must be 50 characters or less''"
| "message PhoneLength = ''Phone number must be 20 characters or less''"

text \<open>
  When the validator reports a rule: the condition of the check of \<open>Employee.validate\<close>
  that appends the message of the rule. The format of the email is checked in the \<open>elif\<close>
  of the required check, and the position and the department are trimmed before they are
  tested, as the names and the email are.
\<close>

fun reported :: "employee \<Rightarrow> rule \<Rightarrow> bool" where
  "reported e IdRequired = (employee_id e = [])"
| "reported e FirstNameRequired = (first_name e = [] \<or> strip (first_name e) = [])"
| "reported e LastNameRequired = (last_name e = [] \<or> strip (last_name e) = [])"
| "reported e EmailRequired = (email e = [] \<or> strip (email e) = [])"
| "reported e EmailFormat =
     (\<not> (email e = [] \<or> strip (email e) = [])
      \<and> (CHR ''@'' \<notin> set (email e) \<or> CHR ''.'' \<notin> set (email e)))"
| "reported e PositionRequired = (position e = [] \<or> strip (position e) = [])"
| "reported e DepartmentRequired = (department e = [] \<or> strip (department e) = [])"
| "reported e FirstNameLength = (length (first_name e) > 50)"
| "reported e LastNameLength = (length (last_name e) > 50)"
| "reported e EmailLength = (length (email e) > 100)"
| "reported e PositionLength = (length (position e) > 100)"
| "reported e DepartmentLength = (length (department e) > 50)"
| "reported e PhoneLength = (phone e \<noteq> [] \<and> length (phone e) > 20)"

definition whitespace_only :: "string \<Rightarrow> bool" where
  \<comment> \<open>A string that is not empty and is empty after trimming.\<close>
  "whitespace_only s = (s \<noteq> [] \<and> strip s = [])"

definition example_employee :: employee where
  "example_employee =
     \<lparr> employee_id = ''e1'', first_name = ''Ada'', last_name = ''Lovelace'',
       email = ''a@b.com'', position = ''Engineer'', department = ''R&D'',
       phone = ''555-0100'', hire_date = ''2024-01-15'', profile_picture_url = [],
       created_at = ''2024-01-15T09:00:00'', updated_at = ''2024-01-15T09:00:00'' \<rparr>"

section \<open>The environment and the two stores\<close>

text \<open>
  What a call reads from outside the program is given to it as an \<open>env\<close>: the reading of
  \<open>datetime.utcnow().isoformat()\<close> (one reading for the whole call), the value of
  \<open>uuid.uuid4().hex\<close>, and the two library functions \<open>mimetypes.guess_type\<close> and
  \<open>generate_presigned_url\<close> (bucket, key, seconds of validity), whose results the
  program only passes on.
\<close>

record env =
  utcnow :: string
  uuid4_hex :: string
  guess_type :: "string \<Rightarrow> string option"
  generate_presigned_url :: "string \<Rightarrow> string \<Rightarrow> nat \<Rightarrow> string"

datatype exn = ClientError string

record s3_object =
  body :: string
  content_type :: string
  metadata :: "(string \<times> string) list"
  last_modified :: string

text \<open>
  The state of the two stores. The table holds its items in scan order, keyed by
  \<open>employee_id\<close>; one scan request evaluates at most \<open>page_limit\<close> items (at least one),
  which stands for the size limit of a response. The bucket holds its objects in listing
  order, that is ordered by key. Each store is reachable or not for the length of a call:
  when it is not, every request to it raises \<open>ClientError\<close>.
\<close>

record world =
  items :: "(string \<times> item) list"
  page_limit :: nat
  table_status :: string
  db_available :: bool
  objects :: "(string \<times> s3_object) list"
  s3_available :: bool
  bucket_name :: string
  aws_region :: string
  location_constraint :: "string option"

definition S3_PROFILE_PICTURES_PREFIX :: string where
  "S3_PROFILE_PICTURES_PREFIX = ''profile-pictures/''"

subsection \<open>The requests to the table\<close>

definition unavailable :: exn where
  "unavailable = ClientError ''Service Unavailable''"

definition get_item :: "world \<Rightarrow> string \<Rightarrow> exn + item option" where
  \<comment> \<open>The response has an \<open>Item\<close> or not.\<close>
  "get_item w k = (if db_available w then Inr (map_of (items w) k) else Inl unavailable)"

definition utf8_length :: "string \<Rightarrow> nat" where
  \<comment> \<open>The number of bytes of a string in UTF-8: one for a code point below 128, two for
      the others up to 255.\<close>
  "utf8_length s = sum_list (map (\<lambda>c. if (of_char c :: nat) < 128 then 1 else 2) s)"

definition attribute_names :: "string list" where
  \<comment> \<open>The attributes of an item of the table: the keys of \<open>Employee.to_dict\<close>.\<close>
  "attribute_names =
     [''employee_id'', ''first_name'', ''last_name'', ''email'', ''position'', ''department'',
      ''phone'', ''hire_date'', ''profile_picture_url'', ''created_at'', ''updated_at'']"

definition item_size :: "item \<Rightarrow> nat" where
  \<comment> \<open>The size of an item as the table counts it: the bytes of the name and of the value
      of each attribute it has.\<close>
  "item_size it =
     sum_list (map (\<lambda>k. case it k of None \<Rightarrow> 0 | Some v \<Rightarrow> utf8_length k + utf8_length v)
       attribute_names)"

definition MAX_ITEM_SIZE :: nat where
  \<comment> \<open>400 KB\<close>
  "MAX_ITEM_SIZE = 409600"

definition MAX_KEY_SIZE :: nat where
  \<comment> \<open>The bound of a partition key, in bytes.\<close>
  "MAX_KEY_SIZE = 2048"

definition put_item :: "world \<Rightarrow> item \<Rightarrow> exn + world" where
  \<comment> \<open>An item of a key already there replaces it; a new one comes last in scan order. The
      table refuses an item without its key, with an empty key or one over 2048 bytes, and
      an item over 400 KB.\<close>
  "put_item w it =
     (if \<not> db_available w then Inl unavailable
      else case it ''employee_id'' of
             None \<Rightarrow> Inl (ClientError ''Missing the key employee_id in the item'')
           | Some k \<Rightarrow>
               if k = [] \<or> MAX_KEY_SIZE < utf8_length k
               then Inl (ClientError ''One or more parameter values were invalid'')
               else if MAX_ITEM_SIZE < item_size it
               then Inl (ClientError ''Item size has exceeded the maximum allowed size'')
               else Inr (w\<lparr>items := AList.update k it (items w)\<rparr>))"

definition delete_item :: "world \<Rightarrow> string \<Rightarrow> exn + world" where
  "delete_item w k =
     (if db_available w then Inr (w\<lparr>items := AList.delete k (items w)\<rparr>) else Inl unavailable)"

record scan_response =
  Items :: "item list"
  LastEvaluatedKey :: "nat option"

definition scan :: "world \<Rightarrow> (item \<Rightarrow> bool) \<Rightarrow> nat option \<Rightarrow> exn + scan_response" where
  \<comment> \<open>One scan request: the filter expression and \<open>ExclusiveStartKey\<close>. The key of the last
      evaluated item is modelled by its position in scan order. The filter applies to the
      items the page evaluates.\<close>
  "scan w flt start =
     (if \<not> db_available w then Inl unavailable
      else let pos = (case start of None \<Rightarrow> 0 | Some k \<Rightarrow> k);
               rest = drop pos (items w);
               n = max 1 (page_limit w)
           in Inr \<lparr> Items = filter flt (map snd (take n rest)),
                    LastEvaluatedKey = (if n < length rest then Some (pos + n) else None) \<rparr>)"

definition describe_table :: "world \<Rightarrow> exn + string" where
  \<comment> \<open>The \<open>TableStatus\<close> of the response.\<close>
  "describe_table w = (if db_available w then Inr (table_status w) else Inl unavailable)"

definition attr_eq :: "string \<Rightarrow> string \<Rightarrow> item \<Rightarrow> bool" where
  \<comment> \<open>\<open>Attr(name).eq(v)\<close>\<close>
  "attr_eq name v it = (it name = Some v)"


subsection \<open>The database layer (app/database.py)\<close>

definition db_get_employee :: "env \<Rightarrow> world \<Rightarrow> string \<Rightarrow> employee option" where
  "db_get_employee E w eid =
     (case get_item w eid of
        Inl e \<Rightarrow> None
      | Inr response \<Rightarrow>
          (case response of
             Some it \<Rightarrow> Some (from_dict (utcnow E) it)
           | None \<Rightarrow> None))"

definition db_create_employee :: "env \<Rightarrow> world \<Rightarrow> employee \<Rightarrow> bool \<times> world" where
  "db_create_employee E w employee =
     (if \<not> fst (validate employee) then (False, w)
      else if db_get_employee E w (employee_id employee) \<noteq> None then (False, w)
      else case put_item w (to_dict employee) of
             Inl e \<Rightarrow> (False, w)
           | Inr w' \<Rightarrow> (True, w'))"

definition db_update_employee :: "env \<Rightarrow> world \<Rightarrow> employee \<Rightarrow> bool \<times> world" where
  "db_update_employee E w employee =
     (if \<not> fst (validate employee) then (False, w)
      else if db_get_employee E w (employee_id employee) = None then (False, w)
      else let employee = update_timestamp (utcnow E) employee
           in case put_item w (to_dict employee) of
                Inl e \<Rightarrow> (False, w)
              | Inr w' \<Rightarrow> (True, w'))"

definition db_delete_employee :: "env \<Rightarrow> world \<Rightarrow> string \<Rightarrow> bool \<times> world" where
  "db_delete_employee E w eid =
     (if db_get_employee E w eid = None then (False, w)
      else case delete_item w eid of
             Inl e \<Rightarrow> (False, w)
           | Inr w' \<Rightarrow> (True, w'))"

text \<open>
  The loop \<open>while 'LastEvaluatedKey' in response\<close> of the three scanning methods: it asks
  for the next page and appends its items, until a response has no key.
\<close>

function scan_rest ::
  "env \<Rightarrow> world \<Rightarrow> (item \<Rightarrow> bool) \<Rightarrow> scan_response \<Rightarrow> employee list \<Rightarrow> exn + employee list" where
  "scan_rest E w flt response employees =
     (case LastEvaluatedKey response of
        None \<Rightarrow> Inr employees
      | Some k \<Rightarrow>
          (case scan w flt (Some k) of
             Inl e \<Rightarrow> Inl e
           | Inr response' \<Rightarrow>
               scan_rest E w flt response'
                 (employees @ map (from_dict (utcnow E)) (Items response'))))"
  by pat_completeness auto
termination
  by (relation "measure (\<lambda>(E, w, flt, response, employees).
        case LastEvaluatedKey response of None \<Rightarrow> 0 | Some k \<Rightarrow> Suc (length (items w) - k))")
     (auto simp: scan_def Let_def split: if_splits option.splits)

declare scan_rest.simps [simp del]

definition scan_all :: "env \<Rightarrow> world \<Rightarrow> (item \<Rightarrow> bool) \<Rightarrow> employee list" where
  \<comment> \<open>The body the three scanning methods share: the first request, the loop, and the
      handlers, which return the empty list.\<close>
  "scan_all E w flt =
     (case scan w flt None of
        Inl e \<Rightarrow> []
      | Inr response \<Rightarrow>
          (case scan_rest E w flt response (map (from_dict (utcnow E)) (Items response)) of
             Inl e \<Rightarrow> []
           | Inr employees \<Rightarrow> employees))"




definition db_get_employee_by_email :: "env \<Rightarrow> world \<Rightarrow> string \<Rightarrow> employee option" where
  \<comment> \<open>One scan request; the first item of its response, if it has one.\<close>
  "db_get_employee_by_email E w em =
     (case scan w (attr_eq ''email'' em) None of
        Inl e \<Rightarrow> None
      | Inr response \<Rightarrow>
          (case Items response of
             it # rest \<Rightarrow> Some (from_dict (utcnow E) it)
           | [] \<Rightarrow> None))"

definition db_health_check :: "world \<Rightarrow> bool" where
  "db_health_check w =
     (case describe_table w of
        Inl e \<Rightarrow> False
      | Inr status \<Rightarrow> status = ''ACTIVE'')"

subsection \<open>The requests to the bucket\<close>

record object_summary =
  Key :: string
  Size :: nat
  LastModified :: string

definition summary :: "string \<times> s3_object \<Rightarrow> object_summary" where
  "summary p = \<lparr> Key = fst p, Size = length (body (snd p)), LastModified = last_modified (snd p) \<rparr>"

definition MAX_KEYS :: nat where
  \<comment> \<open>The most keys one response of \<open>list_objects_v2\<close> holds, and the most keys one
      request of \<open>delete_objects\<close> takes.\<close>
  "MAX_KEYS = 1000"

definition list_objects_v2 ::
  "world \<Rightarrow> string \<Rightarrow> nat option \<Rightarrow> exn + object_summary list option" where
  \<comment> \<open>The \<open>Contents\<close> of one response for a prefix and \<open>MaxKeys\<close>, in key order: the first
      keys that match, at most \<open>MaxKeys\<close> of them and never more than 1000. The response
      has no \<open>Contents\<close> when it holds no key. The keys beyond are in later responses,
      which take a continuation token to ask for.\<close>
  "list_objects_v2 w pfx max_keys =
     (if \<not> s3_available w then Inl unavailable
      else let matching = filter (\<lambda>p. prefix pfx (fst p)) (objects w);
               n = (case max_keys of None \<Rightarrow> MAX_KEYS | Some m \<Rightarrow> min m MAX_KEYS);
               contents = map summary (take n matching)
           in Inr (if contents = [] then None else Some contents))"

definition upload_fileobj ::
  "env \<Rightarrow> world \<Rightarrow> string \<Rightarrow> string \<Rightarrow> string \<Rightarrow> (string \<times> string) list \<Rightarrow> exn + world" where
  \<comment> \<open>The object is stored under its key, with \<open>ContentType\<close> and \<open>Metadata\<close>; an object
      of the same key is replaced.\<close>
  "upload_fileobj E w file_obj key ctype meta =
     (if \<not> s3_available w then Inl unavailable
      else Inr (w\<lparr>objects :=
             insort_key fst
               (key, \<lparr> body = file_obj, content_type = ctype, metadata = meta,
                        last_modified = utcnow E \<rparr>)
               (AList.delete key (objects w))\<rparr>))"

definition delete_objects :: "world \<Rightarrow> string list \<Rightarrow> exn + world" where
  \<comment> \<open>One request deletes the keys it names; a request of more than 1000 keys is refused.\<close>
  "delete_objects w keys =
     (if \<not> s3_available w then Inl unavailable
      else if MAX_KEYS < length keys then Inl (ClientError ''MalformedXML'')
      else Inr (w\<lparr>objects := filter (\<lambda>p. fst p \<notin> set keys) (objects w)\<rparr>))"


definition head_object :: "world \<Rightarrow> string \<Rightarrow> exn + (string \<times> string) list" where
  \<comment> \<open>The \<open>Metadata\<close> of the response.\<close>
  "head_object w key =
     (if \<not> s3_available w then Inl unavailable
      else case map_of (objects w) key of
             None \<Rightarrow> Inl (ClientError ''Not Found'')
           | Some obj \<Rightarrow> Inr (metadata obj))"





definition exn_str :: "exn \<Rightarrow> string" where
  \<comment> \<open>\<open>str(e)\<close>\<close>
  "exn_str e = (case e of ClientError m \<Rightarrow> m)"

subsection \<open>The storage layer (app/storage.py)\<close>

definition splitext_ext :: "string \<Rightarrow> string" where
  \<comment> \<open>\<open>os.path.splitext(p)[1]\<close>: from the last dot of the last path component, leading
      dots of the component apart.\<close>
  "splitext_ext p =
     (let base = rev (takeWhile (\<lambda>c. c \<noteq> CHR ''/'') (rev p));
          name = dropWhile (\<lambda>c. c = CHR ''.'') base
      in if CHR ''.'' \<in> set name
         then CHR ''.'' # rev (takeWhile (\<lambda>c. c \<noteq> CHR ''.'') (rev name))
         else [])"

definition object_url :: "world \<Rightarrow> string \<Rightarrow> string" where
  "object_url w s3_key =
     ''https://'' @ bucket_name w @ ''.s3.'' @ aws_region w @ ''.amazonaws.com/'' @ s3_key"

definition profile_picture_prefix :: "string \<Rightarrow> string" where
  "profile_picture_prefix eid = S3_PROFILE_PICTURES_PREFIX @ eid @ ''_''"

definition document_prefix :: "string \<Rightarrow> string" where
  "document_prefix eid = ''documents/'' @ eid @ ''_''"

definition kept :: "string \<Rightarrow> string \<times> s3_object \<Rightarrow> bool" where
  \<comment> \<open>An object whose key is under neither prefix of the employee.\<close>
  "kept eid p =
     (\<not> prefix (profile_picture_prefix eid) (fst p) \<and> \<not> prefix (document_prefix eid) (fst p))"

definition storage_upload_profile_picture ::
  "env \<Rightarrow> world \<Rightarrow> string \<Rightarrow> string \<Rightarrow> string \<Rightarrow> string option \<times> world" where
  "storage_upload_profile_picture E w file_obj eid filename =
     (let file_extension = lower (splitext_ext filename);
          unique_filename = eid @ ''_'' @ uuid4_hex E @ file_extension;
          s3_key = S3_PROFILE_PICTURES_PREFIX @ unique_filename;
          ctype = or_else (guess_type E filename) ''application/octet-stream'';
          meta = [(''employee_id'', eid), (''original_filename'', filename)]
      in case upload_fileobj E w file_obj s3_key ctype meta of
           Inl e \<Rightarrow> (None, w)
         | Inr w' \<Rightarrow> (Some (object_url w s3_key), w'))"

definition storage_delete_profile_picture :: "world \<Rightarrow> string \<Rightarrow> bool \<times> world" where
  "storage_delete_profile_picture w eid =
     (case list_objects_v2 w (profile_picture_prefix eid) None of
        Inl e \<Rightarrow> (False, w)
      | Inr response \<Rightarrow>
          (case response of
             None \<Rightarrow> (True, w)
           | Some contents \<Rightarrow>
               (let objects_to_delete = map Key contents
                in if objects_to_delete \<noteq> []
                   then (case delete_objects w objects_to_delete of
                           Inl e \<Rightarrow> (False, w)
                         | Inr w' \<Rightarrow> (True, w'))
                   else (True, w))))"

definition storage_get_profile_picture_url :: "env \<Rightarrow> world \<Rightarrow> string \<Rightarrow> string option" where
  "storage_get_profile_picture_url E w eid =
     (case list_objects_v2 w (profile_picture_prefix eid) None of
        Inl e \<Rightarrow> None
      | Inr response \<Rightarrow>
          (case response of
             None \<Rightarrow> None
           | Some contents \<Rightarrow>
               (case contents of
                  [] \<Rightarrow> None
                | first # others \<Rightarrow>
                    Some (generate_presigned_url E (bucket_name w) (Key first) 3600))))"


record document_info =
  doc_key :: string
  doc_filename :: string
  doc_document_type :: string
  doc_size :: nat
  doc_last_modified :: string
  doc_url :: string

definition meta_get :: "(string \<times> string) list \<Rightarrow> string \<Rightarrow> string \<Rightarrow> string" where
  "meta_get meta k d = (case map_of meta k of None \<Rightarrow> d | Some v \<Rightarrow> v)"

definition storage_list_employee_documents :: "env \<Rightarrow> world \<Rightarrow> string \<Rightarrow> document_info list" where
  \<comment> \<open>An object whose metadata cannot be read is skipped.\<close>
  "storage_list_employee_documents E w eid =
     (case list_objects_v2 w (document_prefix eid) None of
        Inl e \<Rightarrow> []
      | Inr response \<Rightarrow>
          (case response of
             None \<Rightarrow> []
           | Some contents \<Rightarrow>
               concat (map (\<lambda>obj.
                 case head_object w (Key obj) of
                   Inl e \<Rightarrow> []
                 | Inr meta \<Rightarrow>
                     [\<lparr> doc_key = Key obj,
                        doc_filename = meta_get meta ''original_filename'' ''Unknown'',
                        doc_document_type = meta_get meta ''document_type'' ''general'',
                        doc_size = Size obj,
                        doc_last_modified = LastModified obj,
                        doc_url = generate_presigned_url E (bucket_name w) (Key obj) 3600 \<rparr>])
                 contents)))"


definition keys_of :: "object_summary list option \<Rightarrow> string list" where
  \<comment> \<open>The keys of a response, none when it has no \<open>Contents\<close>.\<close>
  "keys_of response = (case response of None \<Rightarrow> [] | Some contents \<Rightarrow> map Key contents)"

definition storage_delete_all_employee_files :: "world \<Rightarrow> string \<Rightarrow> bool \<times> world" where
  "storage_delete_all_employee_files w eid =
     (let objects_to_delete = []
      in case list_objects_v2 w (profile_picture_prefix eid) None of
           Inl e \<Rightarrow> (False, w)
         | Inr response \<Rightarrow>
             (let objects_to_delete = objects_to_delete @ keys_of response
              in case list_objects_v2 w (document_prefix eid) None of
                   Inl e \<Rightarrow> (False, w)
                 | Inr response \<Rightarrow>
                     (let objects_to_delete = objects_to_delete @ keys_of response
                      in if objects_to_delete \<noteq> []
                         then (case delete_objects w objects_to_delete of
                                 Inl e \<Rightarrow> (False, w)
                               | Inr w' \<Rightarrow> (True, w'))
                         else (True, w))))"

definition storage_health_check :: "world \<Rightarrow> bool" where
  "storage_health_check w =
     (case list_objects_v2 w [] (Some 1) of
        Inl e \<Rightarrow> False
      | Inr response \<Rightarrow> True)"



section \<open>The service layer (app/employee_service.py)\<close>

text \<open>
  Every method of the service is one \<open>try\<close> block with a handler for \<open>Exception\<close>. Its
  body calls the validator, which raises nothing on string fields, and methods of the two
  layers above, each of which handles every \<open>Exception\<close> itself and returns a value. So
  the body always runs to one of its \<open>return\<close> statements, and the methods below are these
  bodies; \<open>health_check_result\<close> keeps the handler, for callees that raise.
\<close>

definition truthy :: "string option \<Rightarrow> bool" where
  \<comment> \<open>\<open>if profile_url:\<close> for an optional string.\<close>
  "truthy x = (case x of None \<Rightarrow> False | Some s \<Rightarrow> s \<noteq> [])"

definition refresh_profile_picture_url ::
  "env \<Rightarrow> world \<Rightarrow> string \<Rightarrow> employee \<Rightarrow> employee" where
  \<comment> \<open>The three lines the reading methods share, for the id they ask the storage layer
      about: the stored URL is replaced by a pre-signed one when the layer returns one.\<close>
  "refresh_profile_picture_url E w eid employee =
     (let profile_url = storage_get_profile_picture_url E w eid
      in if truthy profile_url
         then employee\<lparr>profile_picture_url := or_empty profile_url\<rparr>
         else employee)"

definition svc_add_employee :: "env \<Rightarrow> world \<Rightarrow> employee \<Rightarrow> bool \<times> world" where
  "svc_add_employee E w employee =
     (if \<not> fst (validate employee) then (False, w)
      else if db_get_employee_by_email E w (email employee) \<noteq> None then (False, w)
      else let (success, w') = db_create_employee E w employee
           in if success then (True, w') else (False, w'))"

definition svc_get_employee :: "env \<Rightarrow> world \<Rightarrow> string \<Rightarrow> employee option" where
  "svc_get_employee E w eid =
     (case db_get_employee E w eid of
        None \<Rightarrow> None
      | Some employee \<Rightarrow> Some (refresh_profile_picture_url E w eid employee))"

definition svc_update_employee :: "env \<Rightarrow> world \<Rightarrow> employee \<Rightarrow> bool \<times> world" where
  "svc_update_employee E w employee =
     (if \<not> fst (validate employee) then (False, w)
      else case db_get_employee E w (employee_id employee) of
             None \<Rightarrow> (False, w)
           | Some existing_employee \<Rightarrow>
               if email existing_employee \<noteq> email employee
                  \<and> (case db_get_employee_by_email E w (email employee) of
                        None \<Rightarrow> False
                      | Some email_exists \<Rightarrow> employee_id email_exists \<noteq> employee_id employee)
               then (False, w)
               else let (success, w') = db_update_employee E w employee
                    in if success then (True, w') else (False, w'))"

definition svc_delete_employee :: "env \<Rightarrow> world \<Rightarrow> string \<Rightarrow> bool \<times> world" where
  \<comment> \<open>The result of the storage layer is logged and not used.\<close>
  "svc_delete_employee E w eid =
     (case db_get_employee E w eid of
        None \<Rightarrow> (False, w)
      | Some employee \<Rightarrow>
          (let (storage_success, w1) = storage_delete_all_employee_files w eid;
               (db_success, w2) = db_delete_employee E w1 eid
           in if db_success then (True, w2) else (False, w2)))"




definition svc_upload_profile_picture ::
  "env \<Rightarrow> world \<Rightarrow> string \<Rightarrow> string \<Rightarrow> string \<Rightarrow> string option \<times> world" where
  "svc_upload_profile_picture E w file_obj eid filename =
     (case db_get_employee E w eid of
        None \<Rightarrow> (None, w)
      | Some employee \<Rightarrow>
          (let (deleted, w1) = storage_delete_profile_picture w eid;
               (profile_url, w2) = storage_upload_profile_picture E w1 file_obj eid filename
           in if truthy profile_url
              then (let employee = employee\<lparr>profile_picture_url := or_empty profile_url\<rparr>;
                        (updated, w3) = db_update_employee E w2 employee
                    in (profile_url, w3))
              else (profile_url, w2)))"










record health_status =
  database :: bool
  storage :: bool
  overall :: bool
  health_error :: "string option"

definition health_check_result :: "exn + bool \<Rightarrow> exn + bool \<Rightarrow> health_status" where
  \<comment> \<open>The body and the handler of \<open>health_check\<close>, given how the call to each layer ends:
      with an exception or with a value. The storage layer is called when the call to the
      database layer has returned.\<close>
  "health_check_result db_call storage_call =
     (case db_call of
        Inl e \<Rightarrow> \<lparr> database = False, storage = False, overall = False,
                   health_error = Some (exn_str e) \<rparr>
      | Inr db_healthy \<Rightarrow>
          (case storage_call of
             Inl e \<Rightarrow> \<lparr> database = False, storage = False, overall = False,
                        health_error = Some (exn_str e) \<rparr>
           | Inr storage_healthy \<Rightarrow>
               \<lparr> database = db_healthy, storage = storage_healthy,
                 overall = (db_healthy \<and> storage_healthy), health_error = None \<rparr>))"

definition svc_health_check :: "world \<Rightarrow> health_status" where
  "svc_health_check w =
     health_check_result (Inr (db_health_check w)) (Inr (storage_health_check w))"

section \<open>The handler that adds an employee (app.py)\<close>

definition ALLOWED_EXTENSIONS :: "string set" where
  "ALLOWED_EXTENSIONS = {''png'', ''jpg'', ''jpeg'', ''gif''}"

definition allowed_file :: "string \<Rightarrow> bool" where
  "allowed_file filename =
     (CHR ''.'' \<in> set filename
      \<and> lower (rev (takeWhile (\<lambda>c. c \<noteq> CHR ''.'') (rev filename))) \<in> ALLOWED_EXTENSIONS)"

text \<open>
  The \<open>POST\<close> branch of \<open>add_employee\<close>, up to its \<open>result\<close>. It is given the function
  \<open>secure_filename\<close> of the web framework, the identifier \<open>str(uuid.uuid4())\<close> it draws
  for the employee, the form, and the uploaded file (its name and content) when the
  request has one. A required field that the form lacks raises, and the handler of the
  route catches it: nothing is added.
\<close>

definition app_add_employee ::
  "env \<Rightarrow> (string \<Rightarrow> string) \<Rightarrow> string \<Rightarrow> (string \<rightharpoonup> string) \<Rightarrow> (string \<times> string) option
     \<Rightarrow> world \<Rightarrow> bool \<times> world" where
  "app_add_employee E secure_filename new_id form file w =
     (case (form ''first_name'', form ''last_name'', form ''email'', form ''position'',
            form ''department'') of
        (Some fname, Some lname, Some em, Some pos, Some dep) \<Rightarrow>
          (let ph = dict_get form ''phone'' [];
               hdate = dict_get form ''hire_date'' [];
               (picture_url, w1) =
                 (case file of
                    None \<Rightarrow> (None, w)
                  | Some (file_name, content) \<Rightarrow>
                      if file_name \<noteq> [] \<and> allowed_file file_name
                      then svc_upload_profile_picture E w content new_id
                             (secure_filename file_name)
                      else (None, w));
               employee = Employee (utcnow E) new_id fname lname em pos dep
                            (Some ph) (Some hdate) picture_url None None
           in svc_add_employee E w1 employee)
      | _ \<Rightarrow> (False, w))"

section \<open>Example states\<close>

definition example_env :: env where
  "example_env =
     \<lparr> utcnow = ''2024-06-01T12:00:00'', uuid4_hex = ''0f3a'',
       guess_type = (\<lambda>filename. None),
       generate_presigned_url = (\<lambda>bucket key expires. ''https://signed/'' @ key) \<rparr>"

definition second_employee :: employee where
  "second_employee =
     example_employee\<lparr> employee_id := ''e2'', first_name := ''Grace'', last_name := ''Hopper'',
       email := ''c@d.com'' \<rparr>"

definition example_world :: world where
  \<comment> \<open>The two employees, in a table that a scan reads in one page; an empty bucket.\<close>
  "example_world =
     \<lparr> items = [(''e1'', to_dict example_employee), (''e2'', to_dict second_employee)],
       page_limit = 100, table_status = ''ACTIVE'', db_available = True,
       objects = [], s3_available = True,
       bucket_name = ''employee-directory-files'', aws_region = ''us-east-1'',
       location_constraint = None \<rparr>"

definition paged_world :: world where
  \<comment> \<open>The same table, when a scan request evaluates one item.\<close>
  "paged_world = example_world\<lparr>page_limit := 1\<rparr>"


definition picture :: "string \<Rightarrow> s3_object" where
  "picture t =
     \<lparr> body = ''image'', content_type = ''image/png'',
       metadata = [(''employee_id'', ''e1''), (''original_filename'', ''me.png'')],
       last_modified = t \<rparr>"

definition files_world :: world where
  \<comment> \<open>The first employee has two documents and a picture, the second a document.\<close>
  "files_world =
     example_world\<lparr>objects :=
       [(''documents/e1_contract_11.pdf'', picture ''2024-02-02T08:00:00''),
        (''documents/e1_resume_22.pdf'', picture ''2024-02-03T08:00:00''),
        (''documents/e2_resume_33.pdf'', picture ''2024-02-04T08:00:00''),
        (''profile-pictures/e1_aaaa.png'', picture ''2024-02-01T08:00:00'')]\<rparr>"

definition two_pictures_world :: world where
  \<comment> \<open>The first employee has two pictures; the one listed first is the older one.\<close>
  "two_pictures_world =
     example_world\<lparr>objects :=
       [(''profile-pictures/e1_aaaa.png'', picture ''2024-02-01T08:00:00''),
        (''profile-pictures/e1_bbbb.png'', picture ''2024-03-01T08:00:00'')]\<rparr>"

definition stale_reference_world :: world where
  \<comment> \<open>The first employee alone, with a stored picture reference, and an empty bucket.\<close>
  "stale_reference_world =
     example_world\<lparr>items :=
       [(''e1'', to_dict (example_employee\<lparr>profile_picture_url := ''https://old/e1.png''\<rparr>))]\<rparr>"

definition future_stamp_employee :: employee where
  \<comment> \<open>The first employee, with an \<open>updated_at\<close> five seconds after the clock of
      \<open>example_env\<close>.\<close>
  "future_stamp_employee = example_employee\<lparr>updated_at := ''2024-06-01T12:00:05''\<rparr>"

definition future_stamp_world :: world where
  "future_stamp_world = example_world\<lparr>items := [(''e1'', to_dict future_stamp_employee)]\<rparr>"

definition third_employee :: employee where
  "third_employee =
     example_employee\<lparr> employee_id := ''e3'', first_name := ''Alan'', last_name := ''Turing'',
       email := ''c@d.com'' \<rparr>"

definition first_with_second_email :: employee where
  \<comment> \<open>The first employee, with the email of the second.\<close>
  "first_with_second_email = example_employee\<lparr>email := ''c@d.com''\<rparr>"

definition example_form :: "string \<rightharpoonup> string" where
  "example_form =
     [''first_name'' \<mapsto> ''Edsger'', ''last_name'' \<mapsto> ''Dijkstra'', ''email'' \<mapsto> ''e@w.nl'',
      ''position'' \<mapsto> ''Professor'', ''department'' \<mapsto> ''Mathematics'']"

definition new_employee :: employee where
  \<comment> \<open>The employee the handler builds from the form, when no picture was stored.\<close>
  "new_employee =
     Employee (utcnow example_env) ''e9'' ''Edsger'' ''Dijkstra'' ''e@w.nl'' ''Professor''
       ''Mathematics'' (Some []) (Some []) None None None"

section \<open>The validator\<close>

lemma strip_Nil [simp]: "strip [] = []"
  by (simp add: strip_def)

lemma append_if_singleton:
  "(if c then xs @ [m] else xs) = xs @ (if c then [m] else [])"
  by simp

lemma append_if_append:
  "(if c then xs @ [m] else xs @ ys) = xs @ (if c then [m] else ys)"
  by simp

lemma map_filter_concat:
  "map f (filter P xs) = concat (map (\<lambda>x. if P x then [f x] else []) xs)"
  by (induction xs) auto

lemma email_checks:
  "(if reported e EmailRequired then [a] else []) @ (if reported e EmailFormat then [b] else []) @ zs
   = (if email e = [] \<or> strip (email e) = [] then [a]
      else if CHR ''@'' \<notin> set (email e) \<or> CHR ''.'' \<notin> set (email e) then [b] else []) @ zs"
  by simp

lemma validate_errors:
  "snd (validate e) = map message (filter (reported e) all_rules)"
  unfolding map_filter_concat validate_def Let_def
    append_if_singleton append_if_append all_rules_def
  by (simp only: list.map concat.simps email_checks reported.simps(1-3,6-13) message.simps
      snd_conv append_Nil append_Nil2 append_assoc)

lemma validate_fst: "fst (validate e) = (snd (validate e) = [])"
  unfolding validate_def Let_def append_if_singleton append_if_append
  by (simp only: fst_conv snd_conv length_0_conv)

lemma validate_ok:
  assumes "\<And>r. \<not> reported e r"
  shows "validate e = (True, [])"
proof -
  from assms have "filter (reported e) all_rules = []"
    by (simp add: filter_empty_conv)
  then show ?thesis
    using validate_fst [of e] by (simp add: validate_errors prod_eq_iff)
qed

lemma from_dict_to_dict:
  assumes "created_at e \<noteq> []" "updated_at e \<noteq> []"
  shows "from_dict t (to_dict e) = e"
  using assms
  by (simp add: from_dict_def to_dict_def Employee_def dict_get_def or_empty_def or_else_def)

lemma strip_empty_iff: "strip s = [] \<longleftrightarrow> (\<forall>c \<in> set s. isspace c)"
proof
  assume s: "strip s = []"
  have d: "\<forall>x \<in> set (dropWhile isspace s). isspace x"
    using s by (simp add: strip_def)
  have "dropWhile isspace s = []"
  proof (rule ccontr)
    assume ne: "dropWhile isspace s \<noteq> []"
    then have "\<not> isspace (hd (dropWhile isspace s))" by (rule hd_dropWhile)
    moreover from ne have "hd (dropWhile isspace s) \<in> set (dropWhile isspace s)" by simp
    ultimately show False using d by blast
  qed
  then show "\<forall>c \<in> set s. isspace c" by simp
next
  assume "\<forall>c \<in> set s. isspace c"
  then have nil: "dropWhile isspace s = []" by simp
  show "strip s = []" unfolding strip_def nil by simp
qed

lemma rule_in_all_rules: "r \<in> set all_rules"
  by (cases r) (simp_all add: all_rules_def)

lemma filter_only:
  assumes "\<And>r'. P r' = (r' = r)"
  shows "filter P all_rules = [r]"
  using assms by (cases r) (simp_all add: all_rules_def)

lemma blank_email_violates_format:
  assumes "strip (email e) = []"
  shows "violates e EmailFormat"
proof -
  have "\<not> isspace CHR ''@''" by (simp add: isspace_def)
  with assms have "CHR ''@'' \<notin> set (email e)"
    by (auto simp: strip_empty_iff)
  then show ?thesis by simp
qed

lemma reported_iff:
  "reported e r =
     (violates e r \<and> \<not> (r = EmailFormat \<and> strip (email e) = [])
      \<or> r = PositionRequired \<and> whitespace_only (position e)
      \<or> r = DepartmentRequired \<and> whitespace_only (department e))"
  by (cases r) (auto simp: whitespace_only_def)

text \<open>
  Claim C7, as amended. The validator is a function of the record alone. Its error list is
  the list of the messages of the rules it reports, in the order of the rules, and it
  answers ok exactly when that list is empty. The rules it reports are the rules the
  record violates, with two differences. For an email that is blank the format rule is
  violated too, but only \<open>Email is required\<close> is reported, the format check being the
  \<open>elif\<close> of the required check. And a position or a department that is not empty but
  consists of whitespace violates no rule, and is reported as required, the validator
  trimming the field before it tests it. So, for a record whose position and department
  are not of that kind: when it violates no rule, the answer is \<open>(True, [])\<close>; when it
  violates exactly one rule, the answer is \<open>False\<close> with exactly the message of that rule.
  For every record, every violated rule has its message in the list, the format of a
  blank email apart; and every message in the list is the message of a violated rule, or
  is the required message of a position or department of whitespace.
\<close>

theorem validate_rules:
  "snd (validate e) = map message (filter (reported e) all_rules)
   \<and> fst (validate e) = (snd (validate e) = [])
   \<and> reported e r =
       (violates e r \<and> \<not> (r = EmailFormat \<and> strip (email e) = [])
        \<or> r = PositionRequired \<and> whitespace_only (position e)
        \<or> r = DepartmentRequired \<and> whitespace_only (department e))
   \<and> ((\<forall>r. \<not> violates e r) \<and> \<not> whitespace_only (position e)
        \<and> \<not> whitespace_only (department e)
        \<longrightarrow> validate e = (True, []))
   \<and> (violates e r \<and> (\<forall>r'. r' \<noteq> r \<longrightarrow> \<not> violates e r')
        \<and> \<not> whitespace_only (position e) \<and> \<not> whitespace_only (department e)
        \<longrightarrow> validate e = (False, [message r]))
   \<and> (violates e r \<and> \<not> (r = EmailFormat \<and> strip (email e) = [])
        \<longrightarrow> message r \<in> set (snd (validate e)))
   \<and> (m \<in> set (snd (validate e)) \<longrightarrow>
        (\<exists>r. m = message r
           \<and> (violates e r \<or> r = PositionRequired \<and> whitespace_only (position e)
                \<or> r = DepartmentRequired \<and> whitespace_only (department e))))"
proof (intro conjI impI)
  show errs: "snd (validate e) = map message (filter (reported e) all_rules)"
    by (rule validate_errors)
  show "fst (validate e) = (snd (validate e) = [])"
    by (rule validate_fst)
  show "reported e r =
       (violates e r \<and> \<not> (r = EmailFormat \<and> strip (email e) = [])
        \<or> r = PositionRequired \<and> whitespace_only (position e)
        \<or> r = DepartmentRequired \<and> whitespace_only (department e))"
    by (rule reported_iff)
  show "validate e = (True, [])"
    if "(\<forall>r. \<not> violates e r) \<and> \<not> whitespace_only (position e)
        \<and> \<not> whitespace_only (department e)"
  proof (rule validate_ok)
    fix r' show "\<not> reported e r'"
      using that by (simp add: reported_iff [of e r'])
  qed
  show "validate e = (False, [message r])"
    if "violates e r \<and> (\<forall>r'. r' \<noteq> r \<longrightarrow> \<not> violates e r')
        \<and> \<not> whitespace_only (position e) \<and> \<not> whitespace_only (department e)"
  proof -
    have "\<not> (r = EmailFormat \<and> strip (email e) = [])"
    proof
      assume a: "r = EmailFormat \<and> strip (email e) = []"
      then have "violates e EmailRequired" by simp
      with that a show False by auto
    qed
    with that have "\<And>r'. reported e r' = (r' = r)"
      by (auto simp: reported_iff)
    then have "filter (reported e) all_rules = [r]"
      by (rule filter_only)
    then show ?thesis
      using errs validate_fst [of e] by (simp add: prod_eq_iff)
  qed
  show "message r \<in> set (snd (validate e))"
    if "violates e r \<and> \<not> (r = EmailFormat \<and> strip (email e) = [])"
  proof -
    from that have "reported e r" by (simp add: reported_iff [of e r])
    then show ?thesis
      using rule_in_all_rules [of r] by (simp add: errs)
  qed
  show "\<exists>r. m = message r
           \<and> (violates e r \<or> r = PositionRequired \<and> whitespace_only (position e)
                \<or> r = DepartmentRequired \<and> whitespace_only (department e))"
    if "m \<in> set (snd (validate e))"
  proof -
    from that obtain r' where "reported e r'" "m = message r'"
      by (auto simp: errs)
    then show ?thesis
      using reported_iff [of e r'] by blast
  qed
qed

lemma example_employee_valid: "\<not> violates example_employee r"
  by (cases r) (simp_all add: example_employee_def strip_def isspace_def)

lemma example_employee_fields_not_whitespace:
  "\<not> whitespace_only (position (example_employee\<lparr>email := em\<rparr>))"
  "\<not> whitespace_only (department (example_employee\<lparr>email := em\<rparr>))"
  "\<not> whitespace_only (position example_employee)"
  "\<not> whitespace_only (department example_employee)"
  by (simp_all add: whitespace_only_def example_employee_def strip_def isspace_def)

lemma example_bad_email:
  "violates (example_employee\<lparr>email := ''nobody''\<rparr>) r = (r = EmailFormat)"
  by (cases r) (simp_all add: example_employee_def strip_def isspace_def)

theorem validate_rules_witness:
  "validate example_employee = (True, [])
   \<and> validate (example_employee\<lparr>email := ''nobody''\<rparr>) = (False, [''Invalid email format''])
   \<and> ''Invalid email format'' \<in> set (snd (validate (example_employee\<lparr>email := ''nobody''\<rparr>)))
   \<and> (\<exists>r. ''Invalid email format'' = message r
          \<and> violates (example_employee\<lparr>email := ''nobody''\<rparr>) r)"
proof -
  let ?bad = "example_employee\<lparr>email := ''nobody''\<rparr>"
  have v: "(\<forall>r. \<not> violates example_employee r) \<and> \<not> whitespace_only (position example_employee)
      \<and> \<not> whitespace_only (department example_employee)"
    by (simp add: example_employee_valid example_employee_fields_not_whitespace)
  have b: "violates ?bad EmailFormat \<and> (\<forall>r'. r' \<noteq> EmailFormat \<longrightarrow> \<not> violates ?bad r')
      \<and> \<not> whitespace_only (position ?bad) \<and> \<not> whitespace_only (department ?bad)"
    by (simp add: example_bad_email example_employee_fields_not_whitespace)
  have 1: "validate example_employee = (True, [])"
    using validate_rules [of example_employee] v by blast
  have 2: "validate ?bad = (False, [message EmailFormat])"
    using validate_rules [of ?bad EmailFormat] b by blast
  have "''Invalid email format'' \<in> set (snd (validate ?bad))"
    unfolding 2 by simp
  with validate_rules [of ?bad _ "''Invalid email format''"]
  have 3: "\<exists>r. ''Invalid email format'' = message r
      \<and> (violates ?bad r \<or> r = PositionRequired \<and> whitespace_only (position ?bad)
           \<or> r = DepartmentRequired \<and> whitespace_only (department ?bad))"
    by blast
  then have 4: "\<exists>r. ''Invalid email format'' = message r \<and> violates ?bad r"
    using b by blast
  show ?thesis
    unfolding 1 2 using 4 by simp
qed

lemma example_blank_email:
  "reported (example_employee\<lparr>email := []\<rparr>) r = (r = EmailRequired)"
  by (cases r) (simp_all add: example_employee_def strip_def isspace_def)

lemma example_blank_position_reported:
  "reported (example_employee\<lparr>position := '' ''\<rparr>) r = (r = PositionRequired)"
  by (cases r) (simp_all add: example_employee_def strip_def isspace_def)

lemma example_blank_position_valid:
  "\<not> violates (example_employee\<lparr>position := '' ''\<rparr>) r"
  by (cases r) (simp_all add: example_employee_def strip_def isspace_def)

text \<open>
  Claim C7 as stated fails twice. A record whose email is empty violates two rules (the
  email is required, and it must contain \<open>@\<close> and a dot), and one message is returned.
  And a record whose position is one space violates no rule, the position being non-empty
  and within its bound, and is refused with \<open>Position is required\<close>.
\<close>

theorem validate_blank_email_counterexample:
  "violates (example_employee\<lparr>email := []\<rparr>) EmailRequired
   \<and> violates (example_employee\<lparr>email := []\<rparr>) EmailFormat
   \<and> snd (validate (example_employee\<lparr>email := []\<rparr>)) = [''Email is required'']
   \<and> (\<forall>r. \<not> violates (example_employee\<lparr>position := '' ''\<rparr>) r)
   \<and> validate (example_employee\<lparr>position := '' ''\<rparr>) = (False, [''Position is required''])"
proof (intro conjI)
  show "violates (example_employee\<lparr>email := []\<rparr>) EmailRequired"
    "violates (example_employee\<lparr>email := []\<rparr>) EmailFormat"
    by simp_all
  show "snd (validate (example_employee\<lparr>email := []\<rparr>)) = [''Email is required'']"
    by (simp add: validate_errors filter_only [OF example_blank_email])
  show "\<forall>r. \<not> violates (example_employee\<lparr>position := '' ''\<rparr>) r"
    by (simp add: example_blank_position_valid)
  have "snd (validate (example_employee\<lparr>position := '' ''\<rparr>)) = [''Position is required'']"
    by (simp add: validate_errors filter_only [OF example_blank_position_reported])
  then show "validate (example_employee\<lparr>position := '' ''\<rparr>)
      = (False, [''Position is required''])"
    using validate_fst [of "example_employee\<lparr>position := '' ''\<rparr>"]
    by (simp add: prod_eq_iff)
qed

section \<open>The health check\<close>

lemma db_health_check_eq:
  "db_health_check w = (db_available w \<and> table_status w = ''ACTIVE'')"
  by (simp add: db_health_check_def describe_table_def)

lemma storage_health_check_eq: "storage_health_check w = s3_available w"
  by (simp add: storage_health_check_def list_objects_v2_def Let_def)

text \<open>
  Claim C9. However the calls to the two layers end, the health check returns a status
  and raises nothing: when both calls return, the status holds the health of the record
  store, the health of the blob store, and their conjunction as the overall health; when
  a call raises, the status is all false, with the error. On the layers of this program,
  which return a value in every state, the health of each store depends on that store
  alone: the table is reachable and active, the bucket is reachable.
\<close>

theorem health_check_total:
  "health_check_result (Inr d) (Inr s)
     = \<lparr> database = d, storage = s, overall = (d \<and> s), health_error = None \<rparr>
   \<and> health_check_result (Inl e) c
     = \<lparr> database = False, storage = False, overall = False, health_error = Some (exn_str e) \<rparr>
   \<and> health_check_result (Inr d) (Inl e)
     = \<lparr> database = False, storage = False, overall = False, health_error = Some (exn_str e) \<rparr>
   \<and> svc_health_check w
     = \<lparr> database = (db_available w \<and> table_status w = ''ACTIVE''),
         storage = s3_available w,
         overall = ((db_available w \<and> table_status w = ''ACTIVE'') \<and> s3_available w),
         health_error = None \<rparr>"
  by (simp add: health_check_result_def svc_health_check_def db_health_check_eq
      storage_health_check_eq)

section \<open>The bounds of the table\<close>

lemma utf8_length_Nil [simp]: "utf8_length [] = 0"
  by (simp add: utf8_length_def)

lemma utf8_length_Cons [simp]:
  "utf8_length (c # s) = (if (of_char c :: nat) < 128 then 1 else 2) + utf8_length s"
  by (simp add: utf8_length_def)

lemma item_size_to_dict:
  "item_size (to_dict e) =
     106 + (utf8_length (employee_id e) + utf8_length (first_name e) + utf8_length (last_name e)
       + utf8_length (email e) + utf8_length (position e) + utf8_length (department e)
       + utf8_length (phone e) + utf8_length (hire_date e)
       + utf8_length (profile_picture_url e) + utf8_length (created_at e)
       + utf8_length (updated_at e))"
  by (simp add: item_size_def attribute_names_def to_dict_def)

lemma to_dict_employee_id [simp]: "to_dict e ''employee_id'' = Some (employee_id e)"
  by (simp add: to_dict_def)

lemma put_item_to_dict:
  assumes "db_available w" and "employee_id e \<noteq> []"
    and "utf8_length (employee_id e) \<le> MAX_KEY_SIZE"
    and "item_size (to_dict e) \<le> MAX_ITEM_SIZE"
  shows "put_item w (to_dict e)
     = Inr (w\<lparr>items := AList.update (employee_id e) (to_dict e) (items w)\<rparr>)"
  using assms by (simp add: put_item_def)

lemma reported_not_ok:
  assumes "reported e r"
  shows "\<not> fst (validate e)"
proof -
  from assms have "\<exists>x \<in> set all_rules. reported e x"
    using rule_in_all_rules [of r] by blast
  then have "filter (reported e) all_rules \<noteq> []"
    by (simp add: filter_empty_conv)
  then show ?thesis
    by (simp add: validate_fst validate_errors)
qed

lemma validate_employee_id:
  assumes "fst (validate e)"
  shows "employee_id e \<noteq> []"
proof
  assume "employee_id e = []"
  then have "reported e IdRequired" by simp
  with assms show False
    using reported_not_ok by blast
qed

section \<open>Looking an employee up by email\<close>

lemma paged_lookup:
  "db_get_employee_by_email example_env paged_world ''c@d.com'' = None"
  by (simp add: db_get_employee_by_email_def scan_def paged_world_def example_world_def
      attr_eq_def to_dict_def example_employee_def Let_def)

lemma paged_scan:
  "map employee_id (scan_all example_env paged_world (attr_eq ''email'' ''c@d.com'')) = [''e2'']"
  by (simp add: scan_all_def scan_rest.simps scan_def paged_world_def example_world_def
      attr_eq_def to_dict_def example_employee_def second_employee_def Let_def from_dict_def
      Employee_def dict_get_def or_empty_def or_else_def)

text \<open>
  Claim C8 fails on the code. In a table of two employees that a scan reads one item a
  page, the second employee has the email \<open>c@d.com\<close>: the lookup by email, which reads
  the first page only, finds nobody, where the scan that follows the pages, as the
  searches of the same layer do, finds the second employee.
\<close>

theorem get_employee_by_email_reads_first_page_only:
  "map_of (items paged_world) ''e2'' = Some (to_dict second_employee)
   \<and> email second_employee = ''c@d.com''
   \<and> db_get_employee_by_email example_env paged_world ''c@d.com'' = None
   \<and> map employee_id (scan_all example_env paged_world (attr_eq ''email'' ''c@d.com'')) = [''e2'']"
  by (simp add: paged_lookup paged_scan)
     (simp add: paged_world_def example_world_def second_employee_def)

section \<open>The uniqueness of the email\<close>

lemma third_employee_valid: "validate third_employee = (True, [])"
proof (rule validate_ok)
  fix r show "\<not> reported third_employee r"
    by (cases r) (simp_all add: third_employee_def example_employee_def strip_def isspace_def)
qed

lemma paged_get_third: "db_get_employee example_env paged_world ''e3'' = None"
  by (simp add: db_get_employee_def get_item_def paged_world_def example_world_def)

text \<open>
  Claim C1 fails on the code. The table holds exactly one record with the email
  \<open>c@d.com\<close>, the second of two records, and a scan reads one item a page. Adding a valid
  third employee with that email succeeds, and the table then holds two records with the
  email: the duplicate check looks the email up in the first page only (claim C8).
\<close>

theorem add_employee_duplicate_beyond_first_page:
  "map fst (filter (\<lambda>p. snd p ''email'' = Some ''c@d.com'') (items paged_world)) = [''e2'']
   \<and> fst (svc_add_employee example_env paged_world third_employee) = True
   \<and> map fst (filter (\<lambda>p. snd p ''email'' = Some ''c@d.com'')
        (items (snd (svc_add_employee example_env paged_world third_employee))))
      = [''e2'', ''e3'']"
proof -
  have e: "email third_employee = ''c@d.com''" "employee_id third_employee = ''e3''"
    by (simp_all add: third_employee_def example_employee_def)
  have sz: "item_size (to_dict third_employee) \<le> MAX_ITEM_SIZE"
    by (simp add: item_size_to_dict third_employee_def example_employee_def MAX_ITEM_SIZE_def)
  have put: "put_item paged_world (to_dict third_employee)
      = Inr (paged_world\<lparr>items := items paged_world @ [(''e3'', to_dict third_employee)]\<rparr>)"
    using sz by (simp add: put_item_def paged_world_def example_world_def e MAX_KEY_SIZE_def)
  have add: "svc_add_employee example_env paged_world third_employee
      = (True, paged_world\<lparr>items := items paged_world @ [(''e3'', to_dict third_employee)]\<rparr>)"
    by (simp add: svc_add_employee_def db_create_employee_def third_employee_valid e
        paged_lookup paged_get_third put)
  show ?thesis
    unfolding add
    by (simp add: paged_world_def example_world_def to_dict_def example_employee_def
        second_employee_def third_employee_def)
qed

lemma first_with_second_email_valid: "validate first_with_second_email = (True, [])"
proof (rule validate_ok)
  fix r show "\<not> reported first_with_second_email r"
    by (cases r)
       (simp_all add: first_with_second_email_def example_employee_def strip_def isspace_def)
qed

lemma paged_get_first:
  "db_get_employee example_env paged_world ''e1'' = Some example_employee"
proof -
  have "from_dict (utcnow example_env) (to_dict example_employee) = example_employee"
    by (rule from_dict_to_dict) (simp_all add: example_employee_def)
  then show ?thesis
    by (simp add: db_get_employee_def get_item_def paged_world_def example_world_def)
qed

text \<open>
  Claim C4 fails on the code. In the same table the first employee has the email
  \<open>a@b.com\<close> and the second, on the second page of a scan, owns \<open>c@d.com\<close>. Updating the
  first employee with the email \<open>c@d.com\<close> succeeds and the stored record of the first
  employee gets that email: the check is run against the new email and would exclude
  the first employee's own id, but it looks the email up in the first page only
  (claim C8).
\<close>

theorem update_employee_duplicate_beyond_first_page:
  "map fst (filter (\<lambda>p. snd p ''email'' = Some ''c@d.com'') (items paged_world)) = [''e2'']
   \<and> fst (svc_update_employee example_env paged_world first_with_second_email) = True
   \<and> map fst (filter (\<lambda>p. snd p ''email'' = Some ''c@d.com'')
        (items (snd (svc_update_employee example_env paged_world first_with_second_email))))
      = [''e1'', ''e2'']"
proof -
  have e: "email first_with_second_email = ''c@d.com''"
    "employee_id first_with_second_email = ''e1''"
    "email example_employee = ''a@b.com''"
    by (simp_all add: first_with_second_email_def example_employee_def)
  let ?new = "update_timestamp (utcnow example_env) first_with_second_email"
  have sz: "item_size (to_dict ?new) \<le> MAX_ITEM_SIZE"
    by (simp add: item_size_to_dict first_with_second_email_def example_employee_def
        update_timestamp_def example_env_def MAX_ITEM_SIZE_def)
  have i: "employee_id ?new = ''e1''"
    by (simp add: update_timestamp_def e)
  have put: "put_item paged_world (to_dict ?new)
      = Inr (paged_world\<lparr>items := [(''e1'', to_dict ?new), (''e2'', to_dict second_employee)]\<rparr>)"
    using sz by (simp add: put_item_def paged_world_def example_world_def i MAX_KEY_SIZE_def)
  have upd: "svc_update_employee example_env paged_world first_with_second_email
      = (True, paged_world\<lparr>items := [(''e1'', to_dict ?new), (''e2'', to_dict second_employee)]\<rparr>)"
    by (simp add: svc_update_employee_def db_update_employee_def
        first_with_second_email_valid e paged_lookup paged_get_first put Let_def)
  show ?thesis
    unfolding upd
    by (simp add: to_dict_def e update_timestamp_def second_employee_def)
       (simp add: paged_world_def example_world_def to_dict_def example_employee_def
        second_employee_def)
qed

section \<open>Adding an employee with a picture\<close>

lemma upload_profile_picture_needs_record:
  "db_get_employee E w eid = None \<Longrightarrow>
   svc_upload_profile_picture E w file_obj eid filename = (None, w)"
  by (simp add: svc_upload_profile_picture_def)

lemma new_employee_fields:
  "new_employee = \<lparr> employee_id = ''e9'', first_name = ''Edsger'', last_name = ''Dijkstra'',
     email = ''e@w.nl'', position = ''Professor'', department = ''Mathematics'', phone = [],
     hire_date = [], profile_picture_url = [], created_at = ''2024-06-01T12:00:00'',
     updated_at = ''2024-06-01T12:00:00'' \<rparr>"
  by (simp add: new_employee_def Employee_def or_empty_def or_else_def example_env_def)

lemma new_employee_valid: "validate new_employee = (True, [])"
proof (rule validate_ok)
  fix r show "\<not> reported new_employee r"
    by (cases r) (simp_all add: new_employee_fields strip_def isspace_def)
qed

lemma allowed: "allowed_file ''me.png''"
  by (simp add: allowed_file_def ALLOWED_EXTENSIONS_def lower_def lower_char_def)

lemma get_e9: "db_get_employee example_env example_world ''e9'' = None"
  by (simp add: db_get_employee_def get_item_def example_world_def)

lemma upload_skipped:
  "svc_upload_profile_picture example_env example_world ''image'' ''e9'' ''me.png''
     = (None, example_world)"
  by (simp add: svc_upload_profile_picture_def get_e9)

lemma lookup_new:
  "db_get_employee_by_email example_env example_world ''e@w.nl'' = None"
  by (simp add: db_get_employee_by_email_def scan_def example_world_def
      attr_eq_def to_dict_def example_employee_def second_employee_def Let_def)

lemma app_eq:
  "app_add_employee example_env (\<lambda>f. f) ''e9'' example_form (Some (''me.png'', ''image''))
     example_world = svc_add_employee example_env example_world new_employee"
  by (simp add: app_add_employee_def example_form_def allowed upload_skipped dict_get_def
      new_employee_def)


lemma add_new:
  "svc_add_employee example_env example_world new_employee
     = (True, example_world\<lparr>items := items example_world @ [(''e9'', to_dict new_employee)]\<rparr>)"
proof -
  have e: "email new_employee = ''e@w.nl''" "employee_id new_employee = ''e9''"
    by (simp_all add: new_employee_fields)
  have sz: "item_size (to_dict new_employee) \<le> MAX_ITEM_SIZE"
    by (simp add: item_size_to_dict new_employee_fields MAX_ITEM_SIZE_def)
  have put: "put_item example_world (to_dict new_employee)
      = Inr (example_world\<lparr>items := items example_world @ [(''e9'', to_dict new_employee)]\<rparr>)"
    using sz by (simp add: put_item_def example_world_def e MAX_KEY_SIZE_def)
  show ?thesis
    by (simp add: svc_add_employee_def db_create_employee_def new_employee_valid e
        lookup_new get_e9 put)
qed

lemma get_after:
  "svc_get_employee example_env
     (example_world\<lparr>items := items example_world @ [(''e9'', to_dict new_employee)]\<rparr>) ''e9''
   = Some new_employee"
proof -
  have "from_dict (utcnow example_env) (to_dict new_employee) = new_employee"
    by (rule from_dict_to_dict) (simp_all add: new_employee_fields)
  then have "db_get_employee example_env
     (example_world\<lparr>items := items example_world @ [(''e9'', to_dict new_employee)]\<rparr>) ''e9''
     = Some new_employee"
    by (simp add: db_get_employee_def get_item_def example_world_def)
  moreover have "storage_get_profile_picture_url example_env
     (example_world\<lparr>items := items example_world @ [(''e9'', to_dict new_employee)]\<rparr>) ''e9''
     = None"
    by (simp add: storage_get_profile_picture_url_def list_objects_v2_def example_world_def)
  ultimately show ?thesis
    by (simp add: svc_get_employee_def refresh_profile_picture_url_def truthy_def
        new_employee_fields)
qed

text \<open>
  Claim C3 fails on the code. The handler that adds an employee asks the service to upload
  the picture before the record exists, and the service uploads a picture for an existing
  employee only: it returns no URL and stores nothing. So for a valid form with a picture
  \<open>me.png\<close> the employee is added, the bucket is as empty as before, and reading the
  employee back gives an empty picture reference, where the claim has the blob uploaded
  first and a fresh URL of it in the record read back.
\<close>

theorem add_employee_with_picture_uploads_nothing:
  "allowed_file ''me.png''
   \<and> fst (app_add_employee example_env (\<lambda>f. f) ''e9'' example_form
        (Some (''me.png'', ''image'')) example_world) = True
   \<and> objects (snd (app_add_employee example_env (\<lambda>f. f) ''e9'' example_form
        (Some (''me.png'', ''image'')) example_world)) = []
   \<and> map_option profile_picture_url
        (svc_get_employee example_env
          (snd (app_add_employee example_env (\<lambda>f. f) ''e9'' example_form
             (Some (''me.png'', ''image'')) example_world)) ''e9'') = Some []"
  unfolding app_eq add_new
  by (simp add: allowed get_after) (simp add: example_world_def new_employee_fields)

section \<open>Updating a record\<close>

lemma db_get_employee_eq:
  "db_get_employee E w eid =
     (if db_available w then map_option (from_dict (utcnow E)) (map_of (items w) eid) else None)"
  by (simp add: db_get_employee_def get_item_def split: option.splits)

lemma db_update_employee_stored:
  assumes "db_available w" and "map_of (items w) (employee_id e) \<noteq> None"
    and "fst (validate e)"
    and "utf8_length (employee_id e) \<le> MAX_KEY_SIZE"
    and "item_size (to_dict (e\<lparr>updated_at := utcnow E\<rparr>)) \<le> MAX_ITEM_SIZE"
  shows "db_update_employee E w e =
     (True, w\<lparr>items := AList.update (employee_id e) (to_dict (e\<lparr>updated_at := utcnow E\<rparr>))
                  (items w)\<rparr>)"
proof -
  have "employee_id e \<noteq> []"
    using assms(3) by (rule validate_employee_id)
  with assms have "put_item w (to_dict (e\<lparr>updated_at := utcnow E\<rparr>))
      = Inr (w\<lparr>items := AList.update (employee_id e) (to_dict (e\<lparr>updated_at := utcnow E\<rparr>))
                  (items w)\<rparr>)"
    using put_item_to_dict [of w "e\<lparr>updated_at := utcnow E\<rparr>"] by simp
  with assms show ?thesis
    by (auto simp: db_update_employee_def db_get_employee_eq Let_def update_timestamp_def)
qed

lemma db_update_employee_invalid:
  "\<not> fst (validate e) \<Longrightarrow> db_update_employee E w e = (False, w)"
  by (simp add: db_update_employee_def)

text \<open>
  Claim C6, as amended. Let the table, in reach, hold under the id of \<open>r\<close> an item with
  the eleven attributes of \<open>r\<close>, and let the update be one the layer and the table accept:
  the record with only the phone changed passes the validation, the id is within the
  bound of a key, and the item with the new phone and the reading of the clock is within
  the bound of an item. Then \<open>Update\<close> succeeds, and in the item the table holds
  afterwards the id, the names, the email, the position, the department, the hire date,
  the picture reference and \<open>created_at\<close> are those of the item it held before, the phone
  is the new one, and \<open>updated_at\<close> is the reading of the clock. No other item and no
  blob changes. The stored \<open>updated_at\<close> strictly advances exactly when the clock reads
  later than the stored value; the clock is not compared with it.
\<close>

theorem update_phone_only:
  assumes avail: "db_available w"
    and found: "map_of (items w) (employee_id r) = Some it"
    and stored:
      "it ''employee_id'' = Some (employee_id r)" "it ''first_name'' = Some (first_name r)"
      "it ''last_name'' = Some (last_name r)" "it ''email'' = Some (email r)"
      "it ''position'' = Some (position r)" "it ''department'' = Some (department r)"
      "it ''phone'' = Some (phone r)" "it ''hire_date'' = Some (hire_date r)"
      "it ''profile_picture_url'' = Some (profile_picture_url r)"
      "it ''created_at'' = Some (created_at r)" "it ''updated_at'' = Some (updated_at r)"
    and valid: "fst (validate (r\<lparr>phone := p\<rparr>))"
    and key: "utf8_length (employee_id r) \<le> MAX_KEY_SIZE"
    and size: "item_size it + utf8_length p + utf8_length (utcnow E) \<le> MAX_ITEM_SIZE"
  shows "\<exists>w' it'. db_update_employee E w (r\<lparr>phone := p\<rparr>) = (True, w')
      \<and> map_of (items w') (employee_id r) = Some it'
      \<and> it' ''employee_id'' = it ''employee_id''
      \<and> it' ''first_name'' = it ''first_name''
      \<and> it' ''last_name'' = it ''last_name''
      \<and> it' ''email'' = it ''email''
      \<and> it' ''position'' = it ''position''
      \<and> it' ''department'' = it ''department''
      \<and> it' ''hire_date'' = it ''hire_date''
      \<and> it' ''profile_picture_url'' = it ''profile_picture_url''
      \<and> it' ''created_at'' = it ''created_at''
      \<and> it' ''phone'' = Some p
      \<and> it' ''updated_at'' = Some (utcnow E)
      \<and> (\<forall>k. k \<noteq> employee_id r \<longrightarrow> map_of (items w') k = map_of (items w) k)
      \<and> objects w' = objects w
      \<and> (dict_get it ''updated_at'' [] < dict_get it' ''updated_at'' [])
          = (updated_at r < utcnow E)"
proof -
  let ?e = "r\<lparr>phone := p, updated_at := utcnow E\<rparr>"
  let ?w' = "w\<lparr>items := AList.update (employee_id r) (to_dict ?e) (items w)\<rparr>"
  have "item_size it =
     106 + (utf8_length (employee_id r) + utf8_length (first_name r) + utf8_length (last_name r)
       + utf8_length (email r) + utf8_length (position r) + utf8_length (department r)
       + utf8_length (phone r) + utf8_length (hire_date r)
       + utf8_length (profile_picture_url r) + utf8_length (created_at r)
       + utf8_length (updated_at r))"
    using stored by (simp add: item_size_def attribute_names_def)
  then have "item_size (to_dict ?e) \<le> item_size it + utf8_length p + utf8_length (utcnow E)"
    by (simp add: item_size_to_dict)
  with size have sz: "item_size (to_dict ((r\<lparr>phone := p\<rparr>)\<lparr>updated_at := utcnow E\<rparr>)) \<le> MAX_ITEM_SIZE"
    by simp
  have upd: "db_update_employee E w (r\<lparr>phone := p\<rparr>) = (True, ?w')"
    using db_update_employee_stored [of w "r\<lparr>phone := p\<rparr>" E] avail found valid key sz
    by simp
  have 1: "map_of (items ?w') (employee_id r) = Some (to_dict ?e)"
    by (simp add: update_conv')
  have 2: "to_dict ?e ''employee_id'' = it ''employee_id''"
    "to_dict ?e ''first_name'' = it ''first_name''"
    "to_dict ?e ''last_name'' = it ''last_name''"
    "to_dict ?e ''email'' = it ''email''"
    "to_dict ?e ''position'' = it ''position''"
    "to_dict ?e ''department'' = it ''department''"
    "to_dict ?e ''hire_date'' = it ''hire_date''"
    "to_dict ?e ''profile_picture_url'' = it ''profile_picture_url''"
    "to_dict ?e ''created_at'' = it ''created_at''"
    using stored by (simp_all add: to_dict_def)
  have 3: "to_dict ?e ''phone'' = Some p" "to_dict ?e ''updated_at'' = Some (utcnow E)"
    by (simp_all add: to_dict_def)
  have 4: "\<forall>k. k \<noteq> employee_id r \<longrightarrow> map_of (items ?w') k = map_of (items w) k"
    by (simp add: update_conv')
  have 5: "objects ?w' = objects w"
    by simp
  have 6: "(dict_get it ''updated_at'' [] < dict_get (to_dict ?e) ''updated_at'' [])
      = (updated_at r < utcnow E)"
    using stored by (simp add: dict_get_def 3)
  from upd 1 2 3 4 5 6 show ?thesis
    by blast
qed

lemma new_phone_valid: "validate (example_employee\<lparr>phone := ''555-0199''\<rparr>) = (True, [])"
proof (rule validate_ok)
  fix r show "\<not> reported (example_employee\<lparr>phone := ''555-0199''\<rparr>) r"
    by (cases r) (simp_all add: example_employee_def strip_def isspace_def)
qed

theorem update_phone_only_witness:
  "\<exists>w' it'. db_update_employee example_env example_world
          (example_employee\<lparr>phone := ''555-0199''\<rparr>) = (True, w')
      \<and> map_of (items w') ''e1'' = Some it'
      \<and> it' ''first_name'' = Some ''Ada''
      \<and> it' ''email'' = Some ''a@b.com''
      \<and> it' ''created_at'' = Some ''2024-01-15T09:00:00''
      \<and> it' ''phone'' = Some ''555-0199''
      \<and> it' ''updated_at'' = Some ''2024-06-01T12:00:00''
      \<and> map_of (items w') ''e2'' = Some (to_dict second_employee)"
proof -
  let ?it = "to_dict example_employee"
  have a: "db_available example_world"
    and b: "map_of (items example_world) (employee_id example_employee) = Some ?it"
    and i: "employee_id example_employee = ''e1''"
    and u: "utcnow example_env = ''2024-06-01T12:00:00''"
    and s: "map_of (items example_world) ''e2'' = Some (to_dict second_employee)"
    by (simp_all add: example_world_def example_employee_def example_env_def)
  have st: "?it ''employee_id'' = Some (employee_id example_employee)"
    "?it ''first_name'' = Some (first_name example_employee)"
    "?it ''last_name'' = Some (last_name example_employee)"
    "?it ''email'' = Some (email example_employee)"
    "?it ''position'' = Some (position example_employee)"
    "?it ''department'' = Some (department example_employee)"
    "?it ''phone'' = Some (phone example_employee)"
    "?it ''hire_date'' = Some (hire_date example_employee)"
    "?it ''profile_picture_url'' = Some (profile_picture_url example_employee)"
    "?it ''created_at'' = Some (created_at example_employee)"
    "?it ''updated_at'' = Some (updated_at example_employee)"
    by (simp_all add: to_dict_def)
  have f: "?it ''first_name'' = Some ''Ada''" "?it ''email'' = Some ''a@b.com''"
    "?it ''created_at'' = Some ''2024-01-15T09:00:00''"
    by (simp_all add: to_dict_def example_employee_def)
  have c: "fst (validate (example_employee\<lparr>phone := ''555-0199''\<rparr>))"
    by (simp add: new_phone_valid)
  have k: "utf8_length (employee_id example_employee) \<le> MAX_KEY_SIZE"
    by (simp add: i MAX_KEY_SIZE_def)
  have z: "item_size ?it + utf8_length ''555-0199'' + utf8_length (utcnow example_env)
      \<le> MAX_ITEM_SIZE"
    by (simp add: item_size_to_dict example_employee_def u MAX_ITEM_SIZE_def)
  from update_phone_only [OF a b st c k z]
  obtain w' it' where w': "db_update_employee example_env example_world
        (example_employee\<lparr>phone := ''555-0199''\<rparr>) = (True, w')"
      "map_of (items w') (employee_id example_employee) = Some it'"
      "it' ''first_name'' = ?it ''first_name''" "it' ''email'' = ?it ''email''"
      "it' ''created_at'' = ?it ''created_at''"
      "it' ''phone'' = Some ''555-0199''" "it' ''updated_at'' = Some (utcnow example_env)"
      "\<forall>k. k \<noteq> employee_id example_employee \<longrightarrow> map_of (items w') k = map_of (items example_world) k"
    by blast
  from w'(8) have "map_of (items w') ''e2'' = Some (to_dict second_employee)"
    by (simp add: i s)
  with w'(1-7) show ?thesis
    unfolding i u f by blast
qed

lemma future_stamp_valid:
  "validate (future_stamp_employee\<lparr>phone := ''555-0199''\<rparr>) = (True, [])"
proof (rule validate_ok)
  fix r show "\<not> reported (future_stamp_employee\<lparr>phone := ''555-0199''\<rparr>) r"
    by (cases r)
       (simp_all add: future_stamp_employee_def example_employee_def strip_def isspace_def)
qed

lemma long_phone_invalid:
  "\<not> fst (validate (example_employee\<lparr>phone := ''555-0100-555-0100-555''\<rparr>))"
proof -
  have "reported (example_employee\<lparr>phone := ''555-0100-555-0100-555''\<rparr>) PhoneLength"
    by simp
  then show ?thesis
    by (rule reported_not_ok)
qed

text \<open>
  Claim C6 as stated fails. The table holds the first employee with an \<open>updated_at\<close> five
  seconds after the reading of the clock. The update that changes only the phone
  succeeds, and the stored \<open>updated_at\<close> is then the reading of the clock, which is before
  the value it replaces: \<open>updated_at\<close> goes back. And an update that changes only the
  phone, to one of 21 characters, is refused: \<open>updated_at\<close> stays as it is.
\<close>

theorem update_phone_only_clock_counterexample:
  "map_option (\<lambda>it. it ''updated_at'') (map_of (items future_stamp_world) ''e1'')
     = Some (Some ''2024-06-01T12:00:05'')
   \<and> utcnow example_env = ''2024-06-01T12:00:00''
   \<and> fst (db_update_employee example_env future_stamp_world
        (future_stamp_employee\<lparr>phone := ''555-0199''\<rparr>)) = True
   \<and> map_option (\<lambda>it. it ''updated_at'')
        (map_of (items (snd (db_update_employee example_env future_stamp_world
           (future_stamp_employee\<lparr>phone := ''555-0199''\<rparr>)))) ''e1'')
     = Some (Some ''2024-06-01T12:00:00'')
   \<and> ''2024-06-01T12:00:00'' < ''2024-06-01T12:00:05''
   \<and> db_update_employee example_env example_world
        (example_employee\<lparr>phone := ''555-0100-555-0100-555''\<rparr>) = (False, example_world)"
proof -
  let ?e = "future_stamp_employee\<lparr>phone := ''555-0199''\<rparr>"
  have i: "employee_id ?e = ''e1''"
    by (simp add: future_stamp_employee_def example_employee_def)
  have u: "utcnow example_env = ''2024-06-01T12:00:00''"
    by (simp add: example_env_def)
  have a: "db_available future_stamp_world"
    "map_of (items future_stamp_world) (employee_id ?e) \<noteq> None"
    by (simp_all add: i future_stamp_world_def example_world_def)
  have k: "utf8_length (employee_id ?e) \<le> MAX_KEY_SIZE"
    by (simp add: i MAX_KEY_SIZE_def)
  have z: "item_size (to_dict (?e\<lparr>updated_at := utcnow example_env\<rparr>)) \<le> MAX_ITEM_SIZE"
    by (simp add: item_size_to_dict future_stamp_employee_def example_employee_def u
        MAX_ITEM_SIZE_def)
  have v: "fst (validate ?e)"
    by (simp add: future_stamp_valid)
  have upd: "db_update_employee example_env future_stamp_world ?e
      = (True, future_stamp_world\<lparr>items := AList.update (employee_id ?e)
           (to_dict (?e\<lparr>updated_at := utcnow example_env\<rparr>)) (items future_stamp_world)\<rparr>)"
    using a v k z by (rule db_update_employee_stored)
  have 1: "map_option (\<lambda>it. it ''updated_at'') (map_of (items future_stamp_world) ''e1'')
     = Some (Some ''2024-06-01T12:00:05'')"
    by (simp add: future_stamp_world_def to_dict_def future_stamp_employee_def)
  have 2: "map_option (\<lambda>it. it ''updated_at'')
        (map_of (items (snd (db_update_employee example_env future_stamp_world ?e))) ''e1'')
     = Some (Some ''2024-06-01T12:00:00'')"
    unfolding upd by (simp add: i update_conv' to_dict_def u)
  have 3: "''2024-06-01T12:00:00'' < ''2024-06-01T12:00:05''"
    by (simp add: less_char_def)
  have 4: "db_update_employee example_env example_world
        (example_employee\<lparr>phone := ''555-0100-555-0100-555''\<rparr>) = (False, example_world)"
    using long_phone_invalid by (rule db_update_employee_invalid)
  show ?thesis
    using 1 u 2 3 4 by (simp add: upd)
qed

section \<open>Deleting an employee\<close>

lemma list_objects_v2_available:
  "s3_available w \<Longrightarrow>
   list_objects_v2 w pfx None =
     Inr (if filter (\<lambda>p. prefix pfx (fst p)) (objects w) = [] then None
          else Some (map summary (take MAX_KEYS (filter (\<lambda>p. prefix pfx (fst p)) (objects w)))))"
  by (simp add: list_objects_v2_def Let_def MAX_KEYS_def)

lemma list_objects_v2_unavailable:
  "\<not> s3_available w \<Longrightarrow> list_objects_v2 w pfx mk = Inl unavailable"
  by (simp add: list_objects_v2_def)

lemma keys_of_listing:
  "keys_of (if xs = [] then None else Some (map summary (take n xs))) = map fst (take n xs)"
  by (simp add: keys_of_def summary_def comp_def)

lemma keys_of_None [simp]: "keys_of None = []"
  by (simp add: keys_of_def)

lemma filter_listed:
  "filter (\<lambda>p. fst p \<notin> set (map fst (filter (\<lambda>p. prefix a (fst p)) xs)
                              @ map fst (filter (\<lambda>p. prefix b (fst p)) xs))) xs
   = filter (\<lambda>p. \<not> prefix a (fst p) \<and> \<not> prefix b (fst p)) xs"
  by (rule filter_cong) auto

lemma storage_delete_all_employee_files_unavailable:
  "\<not> s3_available w \<Longrightarrow> storage_delete_all_employee_files w eid = (False, w)"
  by (simp add: storage_delete_all_employee_files_def list_objects_v2_unavailable)

lemma storage_delete_all_employee_files_eq:
  assumes "s3_available w"
    and "length (filter (\<lambda>p. prefix (profile_picture_prefix eid) (fst p)) (objects w))
         + length (filter (\<lambda>p. prefix (document_prefix eid) (fst p)) (objects w)) \<le> MAX_KEYS"
  shows "storage_delete_all_employee_files w eid
     = (True, w\<lparr>objects := filter (kept eid) (objects w)\<rparr>)"
proof -
  let ?a = "profile_picture_prefix eid" and ?b = "document_prefix eid"
  let ?A = "filter (\<lambda>p. prefix ?a (fst p)) (objects w)"
  let ?B = "filter (\<lambda>p. prefix ?b (fst p)) (objects w)"
  let ?ks = "map fst ?A @ map fst ?B"
  have k: "kept eid = (\<lambda>p. \<not> prefix ?a (fst p) \<and> \<not> prefix ?b (fst p))"
    by (simp add: kept_def fun_eq_iff)
  have t: "take MAX_KEYS ?A = ?A" "take MAX_KEYS ?B = ?B"
    using assms(2) by simp_all
  have l: "list_objects_v2 w ?a None = Inr (if ?A = [] then None else Some (map summary ?A))"
    "list_objects_v2 w ?b None = Inr (if ?B = [] then None else Some (map summary ?B))"
    using list_objects_v2_available [OF assms(1), of ?a]
      list_objects_v2_available [OF assms(1), of ?b] by (simp_all only: t)
  have ks: "keys_of (if ?A = [] then None else Some (map summary ?A)) = map fst ?A"
    "keys_of (if ?B = [] then None else Some (map summary ?B)) = map fst ?B"
    by (simp_all add: keys_of_def summary_def comp_def)
  have c: "storage_delete_all_employee_files w eid
      = (if ?ks \<noteq> []
         then (case delete_objects w ?ks of Inl e \<Rightarrow> (False, w) | Inr w' \<Rightarrow> (True, w'))
         else (True, w))"
    unfolding storage_delete_all_employee_files_def Let_def l sum.case ks by simp
  show ?thesis
  proof (cases "?ks = []")
    case True
    then have "filter (kept eid) (objects w) = objects w"
      unfolding k by (auto simp: filter_empty_conv filter_id_conv)
    with True show ?thesis
      unfolding c by simp
  next
    case False
    have "length ?ks \<le> MAX_KEYS"
      using assms(2) by simp
    then have "delete_objects w ?ks
        = Inr (w\<lparr>objects := filter (\<lambda>p. fst p \<notin> set ?ks) (objects w)\<rparr>)"
      using assms(1) by (simp add: delete_objects_def)
    with False show ?thesis
      unfolding c k
      by (simp only: filter_listed if_True sum.case not_False_eq_True)
  qed
qed

lemma storage_delete_all_employee_files_table:
  "items (snd (storage_delete_all_employee_files w eid)) = items w
   \<and> db_available (snd (storage_delete_all_employee_files w eid)) = db_available w"
  by (simp add: storage_delete_all_employee_files_def list_objects_v2_def delete_objects_def
      Let_def split: sum.splits)

lemma db_delete_employee_eq:
  "db_delete_employee E w eid =
     (if db_available w \<and> map_of (items w) eid \<noteq> None
      then (True, w\<lparr>items := AList.delete eid (items w)\<rparr>) else (False, w))"
  by (auto simp: db_delete_employee_def db_get_employee_eq delete_item_def)

lemma svc_delete_employee_eq:
  "svc_delete_employee E w eid =
     (if db_available w \<and> map_of (items w) eid \<noteq> None
      then (True, (snd (storage_delete_all_employee_files w eid))
                    \<lparr>items := AList.delete eid (items w)\<rparr>)
      else (False, w))"
proof -
  obtain b w1 where s: "storage_delete_all_employee_files w eid = (b, w1)"
    by (cases "storage_delete_all_employee_files w eid")
  with storage_delete_all_employee_files_table [of w eid]
  have "items w1 = items w" "db_available w1 = db_available w"
    by simp_all
  then show ?thesis
    by (auto simp: svc_delete_employee_def db_get_employee_eq db_delete_employee_eq s)
qed

lemma filter_kept_none:
  "filter (\<lambda>x. kept eid x \<and> prefix (profile_picture_prefix eid) (fst x)) xs = []"
  "filter (\<lambda>x. kept eid x \<and> prefix (document_prefix eid) (fst x)) xs = []"
  by (auto simp: kept_def filter_empty_conv)

text \<open>
  Claim C2, as amended. For an employee whose record the table, in reach, holds,
  \<open>DeleteEmployee\<close> returns success and removes the record, whatever becomes of the
  blobs: a later \<open>GetEmployee\<close> of the id finds nothing, and no other record changes.
  The cleanup of the blobs is best effort. When the blob store is in reach and the keys
  under the profile-picture prefix and the document prefix of the id are together at most
  the 1000 that one listing response and one delete request hold, the objects left are
  those whose key is under neither prefix, so that listing either prefix then gives
  nothing (no picture URL, no document). When the blob store is out of reach the cleanup
  fails, every blob stays, and the call still succeeds. For an id without a record, or
  with the table out of reach, the call fails and changes nothing.
\<close>

theorem delete_employee_removes_record_and_blobs:
  "(db_available w \<and> map_of (items w) eid \<noteq> None \<longrightarrow>
      (\<exists>w'. svc_delete_employee E w eid = (True, w')
          \<and> map_of (items w') eid = None
          \<and> (\<forall>k. k \<noteq> eid \<longrightarrow> map_of (items w') k = map_of (items w) k)
          \<and> svc_get_employee E' w' eid = None
          \<and> (s3_available w
              \<and> length (filter (\<lambda>p. prefix (profile_picture_prefix eid) (fst p)) (objects w))
                + length (filter (\<lambda>p. prefix (document_prefix eid) (fst p)) (objects w))
                \<le> MAX_KEYS
              \<longrightarrow>
               objects w' = filter (kept eid) (objects w)
             \<and> list_objects_v2 w' (profile_picture_prefix eid) None = Inr None
             \<and> list_objects_v2 w' (document_prefix eid) None = Inr None
             \<and> storage_get_profile_picture_url E' w' eid = None
             \<and> storage_list_employee_documents E' w' eid = [])
          \<and> (\<not> s3_available w \<longrightarrow> objects w' = objects w)))
   \<and> (map_of (items w) eid = None \<or> \<not> db_available w
        \<longrightarrow> svc_delete_employee E w eid = (False, w))"
proof (intro conjI impI)
  assume a: "db_available w \<and> map_of (items w) eid \<noteq> None"
  let ?w1 = "snd (storage_delete_all_employee_files w eid)"
  let ?w' = "?w1\<lparr>items := AList.delete eid (items w)\<rparr>"
  let ?small = "s3_available w
      \<and> length (filter (\<lambda>p. prefix (profile_picture_prefix eid) (fst p)) (objects w))
        + length (filter (\<lambda>p. prefix (document_prefix eid) (fst p)) (objects w)) \<le> MAX_KEYS"
  have t: "db_available ?w1 = db_available w"
    using storage_delete_all_employee_files_table [of w eid] by simp
  have 1: "svc_delete_employee E w eid = (True, ?w')"
    using a by (simp add: svc_delete_employee_eq)
  have 2: "map_of (items ?w') eid = None"
    by (simp add: delete_conv')
  have 3: "\<forall>k. k \<noteq> eid \<longrightarrow> map_of (items ?w') k = map_of (items w) k"
    by simp
  have 4: "svc_get_employee E' ?w' eid = None"
    by (simp add: svc_get_employee_def db_get_employee_eq delete_conv')
  have 5: "?small \<longrightarrow>
               objects ?w' = filter (kept eid) (objects w)
             \<and> list_objects_v2 ?w' (profile_picture_prefix eid) None = Inr None
             \<and> list_objects_v2 ?w' (document_prefix eid) None = Inr None
             \<and> storage_get_profile_picture_url E' ?w' eid = None
             \<and> storage_list_employee_documents E' ?w' eid = []"
  proof
    assume s: ?small
    then have w1: "?w1 = w\<lparr>objects := filter (kept eid) (objects w)\<rparr>"
      by (simp add: storage_delete_all_employee_files_eq)
    from s show "objects ?w' = filter (kept eid) (objects w)
             \<and> list_objects_v2 ?w' (profile_picture_prefix eid) None = Inr None
             \<and> list_objects_v2 ?w' (document_prefix eid) None = Inr None
             \<and> storage_get_profile_picture_url E' ?w' eid = None
             \<and> storage_list_employee_documents E' ?w' eid = []"
      unfolding w1
      by (simp add: list_objects_v2_available filter_kept_none
          storage_get_profile_picture_url_def storage_list_employee_documents_def)
  qed
  have 6: "\<not> s3_available w \<longrightarrow> objects ?w' = objects w"
    by (simp add: storage_delete_all_employee_files_unavailable)
  from 1 2 3 4 5 6
  show "\<exists>w'. svc_delete_employee E w eid = (True, w')
          \<and> map_of (items w') eid = None
          \<and> (\<forall>k. k \<noteq> eid \<longrightarrow> map_of (items w') k = map_of (items w) k)
          \<and> svc_get_employee E' w' eid = None
          \<and> (?small \<longrightarrow>
               objects w' = filter (kept eid) (objects w)
             \<and> list_objects_v2 w' (profile_picture_prefix eid) None = Inr None
             \<and> list_objects_v2 w' (document_prefix eid) None = Inr None
             \<and> storage_get_profile_picture_url E' w' eid = None
             \<and> storage_list_employee_documents E' w' eid = [])
          \<and> (\<not> s3_available w \<longrightarrow> objects w' = objects w)"
    by blast
next
  assume "map_of (items w) eid = None \<or> \<not> db_available w"
  then show "svc_delete_employee E w eid = (False, w)"
    by (auto simp: svc_delete_employee_eq)
qed

lemma files_world_kept:
  "map fst (filter (kept ''e1'') (objects files_world)) = [''documents/e2_resume_33.pdf'']"
  by (simp add: files_world_def kept_def profile_picture_prefix_def document_prefix_def
      S3_PROFILE_PICTURES_PREFIX_def)

lemma files_world_listed:
  "map fst (filter (\<lambda>p. prefix (profile_picture_prefix ''e1'') (fst p)) (objects files_world))
     = [''profile-pictures/e1_aaaa.png'']"
  "map fst (filter (\<lambda>p. prefix (document_prefix ''e1'') (fst p)) (objects files_world))
     = [''documents/e1_contract_11.pdf'', ''documents/e1_resume_22.pdf'']"
  by (simp_all add: files_world_def profile_picture_prefix_def document_prefix_def
      S3_PROFILE_PICTURES_PREFIX_def)

lemma files_world_small:
  "length (filter (\<lambda>p. prefix (profile_picture_prefix ''e1'') (fst p)) (objects files_world))
   + length (filter (\<lambda>p. prefix (document_prefix ''e1'') (fst p)) (objects files_world))
   \<le> MAX_KEYS"
proof -
  have "length (map fst (filter (\<lambda>p. prefix (profile_picture_prefix ''e1'') (fst p))
           (objects files_world)))
      + length (map fst (filter (\<lambda>p. prefix (document_prefix ''e1'') (fst p))
           (objects files_world))) \<le> MAX_KEYS"
    unfolding files_world_listed by (simp add: MAX_KEYS_def)
  then show ?thesis
    by (simp only: length_map)
qed

theorem delete_employee_removes_record_and_blobs_witness:
  "(\<exists>w'. svc_delete_employee example_env files_world ''e1'' = (True, w')
        \<and> map_of (items w') ''e1'' = None
        \<and> svc_get_employee example_env w' ''e1'' = None
        \<and> map fst (objects w') = [''documents/e2_resume_33.pdf'']
        \<and> storage_list_employee_documents example_env w' ''e1'' = [])
   \<and> (\<exists>w'. svc_delete_employee example_env (files_world\<lparr>s3_available := False\<rparr>) ''e1''
          = (True, w')
        \<and> map_of (items w') ''e1'' = None
        \<and> objects w' = objects files_world)
   \<and> svc_delete_employee example_env files_world ''e7'' = (False, files_world)"
proof (intro conjI)
  have a: "db_available files_world \<and> map_of (items files_world) ''e1'' \<noteq> None"
    and s: "s3_available files_world"
    by (simp_all add: files_world_def example_world_def)
  from delete_employee_removes_record_and_blobs
    [where w = files_world and eid = "''e1''" and E = example_env and E' = example_env]
    a s files_world_small
  obtain w' where "svc_delete_employee example_env files_world ''e1'' = (True, w')"
    "map_of (items w') ''e1'' = None" "svc_get_employee example_env w' ''e1'' = None"
    "objects w' = filter (kept ''e1'') (objects files_world)"
    "storage_list_employee_documents example_env w' ''e1'' = []"
    by blast
  then show "\<exists>w'. svc_delete_employee example_env files_world ''e1'' = (True, w')
        \<and> map_of (items w') ''e1'' = None
        \<and> svc_get_employee example_env w' ''e1'' = None
        \<and> map fst (objects w') = [''documents/e2_resume_33.pdf'']
        \<and> storage_list_employee_documents example_env w' ''e1'' = []"
    using files_world_kept by auto
next
  let ?w = "files_world\<lparr>s3_available := False\<rparr>"
  have a: "db_available ?w \<and> map_of (items ?w) ''e1'' \<noteq> None" and s: "\<not> s3_available ?w"
    by (simp_all add: files_world_def example_world_def)
  from delete_employee_removes_record_and_blobs
    [where w = ?w and eid = "''e1''" and E = example_env and E' = example_env] a s
  obtain w' where "svc_delete_employee example_env ?w ''e1'' = (True, w')"
    "map_of (items w') ''e1'' = None" "objects w' = objects ?w"
    by blast
  then show "\<exists>w'. svc_delete_employee example_env ?w ''e1'' = (True, w')
        \<and> map_of (items w') ''e1'' = None \<and> objects w' = objects files_world"
    by auto
next
  have "map_of (items files_world) ''e7'' = None"
    by (simp add: files_world_def example_world_def)
  with delete_employee_removes_record_and_blobs
    [where w = files_world and eid = "''e7''" and E = example_env and E' = example_env]
  show "svc_delete_employee example_env files_world ''e7'' = (False, files_world)"
    by blast
qed

text \<open>
  Claim C2 as stated fails when the cleanup of the blobs fails. The first employee has a
  picture and two documents, and the blob store is out of reach during the call.
  \<open>DeleteEmployee\<close> returns success and the record is gone; the three blobs are still in
  the bucket, and once the blob store is in reach again the listings under the prefixes
  of the id give them, where the claim has these listings empty.
\<close>

theorem delete_employee_cleanup_failure_counterexample:
  "fst (svc_delete_employee example_env (files_world\<lparr>s3_available := False\<rparr>) ''e1'') = True
   \<and> svc_get_employee example_env
        (snd (svc_delete_employee example_env (files_world\<lparr>s3_available := False\<rparr>) ''e1''))
        ''e1'' = None
   \<and> map_sum id keys_of
        (list_objects_v2
          ((snd (svc_delete_employee example_env (files_world\<lparr>s3_available := False\<rparr>) ''e1''))
             \<lparr>s3_available := True\<rparr>)
          (profile_picture_prefix ''e1'') None)
       = Inr [''profile-pictures/e1_aaaa.png'']
   \<and> map_sum id keys_of
        (list_objects_v2
          ((snd (svc_delete_employee example_env (files_world\<lparr>s3_available := False\<rparr>) ''e1''))
             \<lparr>s3_available := True\<rparr>)
          (document_prefix ''e1'') None)
       = Inr [''documents/e1_contract_11.pdf'', ''documents/e1_resume_22.pdf'']"
proof -
  let ?w = "files_world\<lparr>s3_available := False\<rparr>"
  let ?w' = "?w\<lparr>items := AList.delete ''e1'' (items ?w)\<rparr>"
  have a: "db_available ?w \<and> map_of (items ?w) ''e1'' \<noteq> None"
    by (simp add: files_world_def example_world_def)
  have d: "svc_delete_employee example_env ?w ''e1'' = (True, ?w')"
    using a by (simp add: svc_delete_employee_eq storage_delete_all_employee_files_unavailable)
  have g: "svc_get_employee example_env ?w' ''e1'' = None"
    by (simp add: svc_get_employee_def db_get_employee_eq delete_conv')
  have o: "objects (?w'\<lparr>s3_available := True\<rparr>) = objects files_world"
    "s3_available (?w'\<lparr>s3_available := True\<rparr>)"
    by simp_all
  have t: "\<And>xs. length (map fst xs) \<le> MAX_KEYS \<Longrightarrow> take MAX_KEYS xs = xs"
    by simp
  have l1: "map_sum id keys_of
        (list_objects_v2 (?w'\<lparr>s3_available := True\<rparr>) (profile_picture_prefix ''e1'') None)
       = Inr [''profile-pictures/e1_aaaa.png'']"
    unfolding list_objects_v2_available [OF o(2)] o(1)
    using files_world_listed(1)
    by (auto simp: keys_of_def summary_def comp_def MAX_KEYS_def)
  have l2: "map_sum id keys_of
        (list_objects_v2 (?w'\<lparr>s3_available := True\<rparr>) (document_prefix ''e1'') None)
       = Inr [''documents/e1_contract_11.pdf'', ''documents/e1_resume_22.pdf'']"
    unfolding list_objects_v2_available [OF o(2)] o(1)
    using files_world_listed(2)
    by (auto simp: keys_of_def summary_def comp_def MAX_KEYS_def)
  show ?thesis
    unfolding d using g l1 l2 by simp
qed

section \<open>Reading an employee\<close>

lemma find_filter: "find P xs = (case filter P xs of [] \<Rightarrow> None | y # ys \<Rightarrow> Some y)"
  by (induction xs) auto

lemma storage_get_profile_picture_url_eq:
  "storage_get_profile_picture_url E w eid =
     (if s3_available w
      then map_option (\<lambda>p. generate_presigned_url E (bucket_name w) (fst p) 3600)
             (find (\<lambda>p. prefix (profile_picture_prefix eid) (fst p)) (objects w))
      else None)"
  by (simp add: storage_get_profile_picture_url_def list_objects_v2_available
      list_objects_v2_unavailable find_filter summary_def MAX_KEYS_def split: list.splits)

text \<open>
  Claim C5, as amended. \<open>GetEmployee\<close> finds nothing when the database layer finds no
  record. When it finds the record \<open>r\<close> and the blob store is in reach, the listing under
  the profile-picture prefix of the id is looked at: the picture reference of \<open>r\<close> is
  replaced by a freshly generated URL of the first object listed, the first in key
  order. When nothing is listed, or the blob store is out of reach, \<open>r\<close> is returned as
  the table holds it, with the reference it has there; this is not an error.
\<close>

theorem get_employee_refreshes_picture_url:
  "(db_get_employee E w eid = None \<longrightarrow> svc_get_employee E w eid = None)
   \<and> (db_get_employee E w eid = Some r \<and> s3_available w
        \<and> find (\<lambda>p. prefix (profile_picture_prefix eid) (fst p)) (objects w) = Some (k, obj)
        \<and> generate_presigned_url E (bucket_name w) k 3600 \<noteq> []
      \<longrightarrow> svc_get_employee E w eid
            = Some (r\<lparr>profile_picture_url := generate_presigned_url E (bucket_name w) k 3600\<rparr>))
   \<and> (db_get_employee E w eid = Some r
        \<and> (\<not> s3_available w
            \<or> find (\<lambda>p. prefix (profile_picture_prefix eid) (fst p)) (objects w) = None)
      \<longrightarrow> svc_get_employee E w eid = Some r)"
  by (auto simp: svc_get_employee_def refresh_profile_picture_url_def truthy_def or_empty_def
      storage_get_profile_picture_url_eq)


lemma get_first_example:
  "db_get_employee example_env example_world ''e1'' = Some example_employee"
proof -
  have "from_dict (utcnow example_env) (to_dict example_employee) = example_employee"
    by (rule from_dict_to_dict) (simp_all add: example_employee_def)
  then show ?thesis
    by (simp add: db_get_employee_def get_item_def example_world_def)
qed

lemma db_get_employee_objects:
  "db_get_employee E (w\<lparr>objects := os\<rparr>) eid = db_get_employee E w eid"
  by (simp add: db_get_employee_eq)

lemma get_first_two_pictures:
  "db_get_employee example_env two_pictures_world ''e1'' = Some example_employee"
  by (simp add: two_pictures_world_def db_get_employee_objects get_first_example)

lemma find_two_pictures:
  "find (\<lambda>p. prefix (profile_picture_prefix ''e1'') (fst p)) (objects two_pictures_world)
     = Some (''profile-pictures/e1_aaaa.png'', picture ''2024-02-01T08:00:00'')"
  by (simp add: two_pictures_world_def profile_picture_prefix_def S3_PROFILE_PICTURES_PREFIX_def)

lemma signed_key:
  "generate_presigned_url example_env b k n = ''https://signed/'' @ k"
  by (simp add: example_env_def)

theorem get_employee_refreshes_picture_url_witness:
  "svc_get_employee example_env example_world ''e7'' = None
   \<and> svc_get_employee example_env two_pictures_world ''e1''
       = Some (example_employee\<lparr>profile_picture_url :=
                 ''https://signed/profile-pictures/e1_aaaa.png''\<rparr>)
   \<and> svc_get_employee example_env example_world ''e1'' = Some example_employee"
proof (intro conjI)
  have "db_get_employee example_env example_world ''e7'' = None"
    by (simp add: db_get_employee_eq example_world_def)
  with get_employee_refreshes_picture_url [where E = example_env and w = example_world
      and eid = "''e7''"]
  show "svc_get_employee example_env example_world ''e7'' = None"
    by blast
next
  have s: "s3_available two_pictures_world"
    by (simp add: two_pictures_world_def example_world_def)
  have u: "generate_presigned_url example_env (bucket_name two_pictures_world)
      ''profile-pictures/e1_aaaa.png'' 3600 \<noteq> []"
    by (simp add: signed_key)
  from get_employee_refreshes_picture_url [where E = example_env and w = two_pictures_world
      and eid = "''e1''" and r = example_employee and k = "''profile-pictures/e1_aaaa.png''"
      and obj = "picture ''2024-02-01T08:00:00''"]
    get_first_two_pictures s find_two_pictures u
  have "svc_get_employee example_env two_pictures_world ''e1''
      = Some (example_employee\<lparr>profile_picture_url :=
           generate_presigned_url example_env (bucket_name two_pictures_world)
             ''profile-pictures/e1_aaaa.png'' 3600\<rparr>)"
    by blast
  then show "svc_get_employee example_env two_pictures_world ''e1''
       = Some (example_employee\<lparr>profile_picture_url :=
                 ''https://signed/profile-pictures/e1_aaaa.png''\<rparr>)"
    by (simp add: signed_key)
next
  have "find (\<lambda>p. prefix (profile_picture_prefix ''e1'') (fst p)) (objects example_world) = None"
    by (simp add: example_world_def)
  with get_employee_refreshes_picture_url [where E = example_env and w = example_world
      and eid = "''e1''" and r = example_employee] get_first_example
  show "svc_get_employee example_env example_world ''e1'' = Some example_employee"
    by blast
qed

text \<open>
  Claim C5 as stated fails twice. With two pictures of the first employee in the bucket,
  the one listed first being the older one, the URL returned is of the older picture, not
  of the most recently uploaded one. And with no picture in the bucket and a reference in
  the stored record, the reference returned is the stored one, not an empty one.
\<close>

theorem get_employee_first_listed_counterexample:
  "map (\<lambda>p. (fst p, last_modified (snd p))) (objects two_pictures_world)
     = [(''profile-pictures/e1_aaaa.png'', ''2024-02-01T08:00:00''),
        (''profile-pictures/e1_bbbb.png'', ''2024-03-01T08:00:00'')]
   \<and> ''2024-02-01T08:00:00'' < ''2024-03-01T08:00:00''
   \<and> generate_presigned_url example_env (bucket_name two_pictures_world)
        ''profile-pictures/e1_bbbb.png'' 3600 = ''https://signed/profile-pictures/e1_bbbb.png''
   \<and> map_option profile_picture_url (svc_get_employee example_env two_pictures_world ''e1'')
       = Some ''https://signed/profile-pictures/e1_aaaa.png''
   \<and> objects stale_reference_world = []
   \<and> map_option profile_picture_url (svc_get_employee example_env stale_reference_world ''e1'')
       = Some ''https://old/e1.png''"
proof (intro conjI)
  show "map (\<lambda>p. (fst p, last_modified (snd p))) (objects two_pictures_world)
     = [(''profile-pictures/e1_aaaa.png'', ''2024-02-01T08:00:00''),
        (''profile-pictures/e1_bbbb.png'', ''2024-03-01T08:00:00'')]"
    by (simp add: two_pictures_world_def picture_def)
  show "''2024-02-01T08:00:00'' < ''2024-03-01T08:00:00''"
    by (simp add: less_char_def)
  show "generate_presigned_url example_env (bucket_name two_pictures_world)
        ''profile-pictures/e1_bbbb.png'' 3600 = ''https://signed/profile-pictures/e1_bbbb.png''"
    by (simp add: signed_key)
  have s: "s3_available two_pictures_world"
    by (simp add: two_pictures_world_def example_world_def)
  show "map_option profile_picture_url (svc_get_employee example_env two_pictures_world ''e1'')
       = Some ''https://signed/profile-pictures/e1_aaaa.png''"
    by (simp add: svc_get_employee_def get_first_two_pictures refresh_profile_picture_url_def
        storage_get_profile_picture_url_eq s find_two_pictures signed_key truthy_def
        or_empty_def)
  show "objects stale_reference_world = []"
    by (simp add: stale_reference_world_def example_world_def)
  have "from_dict (utcnow example_env)
      (to_dict (example_employee\<lparr>profile_picture_url := ''https://old/e1.png''\<rparr>))
      = example_employee\<lparr>profile_picture_url := ''https://old/e1.png''\<rparr>"
    by (rule from_dict_to_dict) (simp_all add: example_employee_def)
  then have "db_get_employee example_env stale_reference_world ''e1''
      = Some (example_employee\<lparr>profile_picture_url := ''https://old/e1.png''\<rparr>)"
    by (simp add: db_get_employee_eq stale_reference_world_def example_world_def)
  then show "map_option profile_picture_url
      (svc_get_employee example_env stale_reference_world ''e1'') = Some ''https://old/e1.png''"
    by (simp add: svc_get_employee_def refresh_profile_picture_url_def
        storage_get_profile_picture_url_eq stale_reference_world_def example_world_def
        truthy_def)
qed

section \<open>The operations of the service under failure\<close>




















end
